theory Spec2Isabelle
  imports Complex_Main "HOL-Library.Char_ord" "HOL-Library.List_Lexorder" "HOL-Library.AList"
    "HOL-Library.Log_Nat"
begin

section \<open>Strings and file names\<close>

text \<open>
  Python strings are modelled as \<open>string\<close>; a \<open>char\<close> stands for the code point of
  the same number, so the model covers the code points below 256. The character
  classes are those of \<open>str.isalnum\<close> and \<open>str.isspace\<close> on that range.
\<close>

definition isalnum :: "char \<Rightarrow> bool" where
  "isalnum c =
     (let n = (of_char c :: nat)
      in (48 \<le> n \<and> n \<le> 57) \<or> (65 \<le> n \<and> n \<le> 90) \<or> (97 \<le> n \<and> n \<le> 122) \<or>
         n \<in> {170, 178, 179, 181, 185, 186, 188, 189, 190} \<or>
         (192 \<le> n \<and> n \<le> 214) \<or> (216 \<le> n \<and> n \<le> 246) \<or> (248 \<le> n \<and> n \<le> 255))"

definition isspace :: "char \<Rightarrow> bool" where
  "isspace c =
     (let n = (of_char c :: nat)
      in (9 \<le> n \<and> n \<le> 13) \<or> (28 \<le> n \<and> n \<le> 32) \<or> n = 133 \<or> n = 160)"

text \<open>\<open>s.rstrip()\<close>: the trailing run of whitespace is removed.\<close>

definition rstrip :: "string \<Rightarrow> string" where
  "rstrip s = rev (dropWhile isspace (rev s))"

text \<open>
  \<open>sanitize_filename\<close>:
  \<^verbatim>\<open>"".join(c if c.isalnum() or c in (' ', '_', '-') else '_' for c in filename).rstrip()\<close>
\<close>

definition sanitize_char :: "char \<Rightarrow> char" where
  "sanitize_char c =
     (if isalnum c \<or> c \<in> {CHR '' '', CHR ''_'', CHR ''-''} then c else CHR ''_'')"

definition sanitize_filename :: "string \<Rightarrow> string" where
  "sanitize_filename filename = rstrip (map sanitize_char filename)"

text \<open>\<open>s.split('_')\<close>: every underscore separates two parts; the result is never empty.\<close>

fun str_split :: "string \<Rightarrow> string list" where
  "str_split [] = [[]]"
| "str_split (c # cs) =
     (if c = CHR ''_'' then [] # str_split cs
      else (case str_split cs of
              [] \<Rightarrow> [[c]]
            | p # ps \<Rightarrow> (c # p) # ps))"

text \<open>
  \<open>prefix, var_name = var.split('_', 1)\<close>: the string is cut at its first underscore;
  without one the unpacking raises ValueError, here \<open>None\<close>.
\<close>

fun split_once :: "string \<Rightarrow> (string \<times> string) option" where
  "split_once [] = None"
| "split_once (c # cs) =
     (if c = CHR ''_'' then Some ([], cs)
      else (case split_once cs of
              None \<Rightarrow> None
            | Some (p, v) \<Rightarrow> Some (c # p, v)))"

text \<open>
  The value \<open>update_variable_dropdown\<close> gives an option, \<open>f"{prefix}_{var_name}"\<close>, and
  the blob name \<open>update_graph\<close> builds from the two recovered parts,
  \<open>f"{prefix}_{var_name}.csv"\<close>.
\<close>

definition labeled_var_name :: "string \<Rightarrow> string \<Rightarrow> string" where
  "labeled_var_name prefix var_name = prefix @ ''_'' @ var_name"

definition file_path :: "string \<Rightarrow> string \<Rightarrow> string" where
  "file_path prefix var_name = prefix @ ''_'' @ var_name @ ''.csv''"

section \<open>Dates\<close>

text \<open>
  A naive \<open>datetime\<close>: a calendar date and the microseconds since midnight; the
  comparison is the chronological one.
\<close>

record datetime =
  year :: nat
  month :: nat
  day :: nat
  micros :: nat

definition dt_le :: "datetime \<Rightarrow> datetime \<Rightarrow> bool" where
  "dt_le a b =
     (year a < year b \<or> (year a = year b \<and>
       (month a < month b \<or> (month a = month b \<and>
         (day a < day b \<or> (day a = day b \<and> micros a \<le> micros b))))))"

definition is_leap :: "nat \<Rightarrow> bool" where
  "is_leap y = (y mod 4 = 0 \<and> (y mod 100 \<noteq> 0 \<or> y mod 400 = 0))"

definition days_in_month :: "nat \<Rightarrow> nat \<Rightarrow> nat" where
  "days_in_month y m =
     (if m = 2 then (if is_leap y then 29 else 28)
      else if m \<in> {4, 6, 9, 11} then 30 else 31)"

text \<open>
  \<open>datetime.strptime(s, "%Y%m%d")\<close>. The format compiles to the regular expression
  \<^verbatim>\<open>(?P<Y>\d\d\d\d)(?P<m>1[0-2]|0[1-9]|[1-9])(?P<d>3[0-1]|[1-2]\d|0[1-9]|[1-9]| [1-9])\<close>
  which is matched at the start of the string, alternatives tried in the order written;
  the first match found has to end at the end of the string, and its three numbers
  have to be a date of the calendar with a year from 1. Every failure is a ValueError,
  here \<open>None\<close>. Each \<open>re_\<close> function lists the ways its group matches a prefix, in
  the order the matcher tries them, with the number read and the rest of the string.
\<close>

definition is_digit :: "char \<Rightarrow> bool" where
  "is_digit c = (48 \<le> (of_char c :: nat) \<and> (of_char c :: nat) \<le> 57)"

definition digit_val :: "char \<Rightarrow> nat" where
  "digit_val c = of_char c - 48"

fun re_Y :: "string \<Rightarrow> (nat \<times> string) list" where
  "re_Y (a # b # c # d # rest) =
     (if is_digit a \<and> is_digit b \<and> is_digit c \<and> is_digit d
      then [(1000 * digit_val a + 100 * digit_val b + 10 * digit_val c + digit_val d, rest)]
      else [])"
| "re_Y _ = []"

definition two_chars :: "(char \<Rightarrow> bool) \<Rightarrow> (char \<Rightarrow> bool) \<Rightarrow> string \<Rightarrow> (nat \<times> string) list" where
  "two_chars P Q s =
     (case s of
        a # b # rest \<Rightarrow> (if P a \<and> Q b then [(10 * digit_val a + digit_val b, rest)] else [])
      | _ \<Rightarrow> [])"

definition one_char :: "(char \<Rightarrow> bool) \<Rightarrow> string \<Rightarrow> (nat \<times> string) list" where
  "one_char P s =
     (case s of
        a # rest \<Rightarrow> (if P a then [(digit_val a, rest)] else [])
      | _ \<Rightarrow> [])"

definition chr_in :: "string \<Rightarrow> char \<Rightarrow> bool" where
  "chr_in cs c = (c \<in> set cs)"

definition re_m :: "string \<Rightarrow> (nat \<times> string) list" where
  "re_m s =
     two_chars (chr_in ''1'') (chr_in ''012'') s @
     two_chars (chr_in ''0'') (chr_in ''123456789'') s @
     one_char (chr_in ''123456789'') s"

definition re_d :: "string \<Rightarrow> (nat \<times> string) list" where
  "re_d s =
     two_chars (chr_in ''3'') (chr_in ''01'') s @
     two_chars (chr_in ''12'') is_digit s @
     two_chars (chr_in ''0'') (chr_in ''123456789'') s @
     one_char (chr_in ''123456789'') s @
     (case s of
        a # rest \<Rightarrow> (if a = CHR '' '' then one_char (chr_in ''123456789'') rest else [])
      | _ \<Rightarrow> [])"

definition re_Ymd :: "string \<Rightarrow> (nat \<times> nat \<times> nat \<times> string) list" where
  "re_Ymd s =
     concat (map (\<lambda>(y, r1).
       concat (map (\<lambda>(m, r2).
         map (\<lambda>(d, r3). (y, m, d, r3)) (re_d r2)) (re_m r1))) (re_Y s))"

definition strptime_Ymd :: "string \<Rightarrow> datetime option" where
  "strptime_Ymd s =
     (case re_Ymd s of
        [] \<Rightarrow> None
      | (y, m, d, rest) # _ \<Rightarrow>
          (if rest \<noteq> [] then None
           else if 1 \<le> y \<and> 1 \<le> d \<and> d \<le> days_in_month y m
           then Some \<lparr>year = y, month = m, day = d, micros = 0\<rparr>
           else None))"

text \<open>
  \<open>filter_files_by_date\<close>. \<open>file_date\<close> is the body of the \<open>try\<close>: \<open>None\<close> when the
  name has fewer than three parts (\<open>continue\<close>) or \<open>strptime\<close> raises (the exception
  is caught and printed); in both cases the loop goes on with the next name.
\<close>

definition file_date :: "string \<Rightarrow> datetime option" where
  "file_date file =
     (let file_parts = str_split file
      in if length file_parts < 3 then None
         else strptime_Ymd (file_parts ! 2))"

fun filter_files_by_date :: "string list \<Rightarrow> datetime \<Rightarrow> datetime \<Rightarrow> string list" where
  "filter_files_by_date [] start_date end_date = []"
| "filter_files_by_date (file # files) start_date end_date =
     (case file_date file of
        None \<Rightarrow> filter_files_by_date files start_date end_date
      | Some d \<Rightarrow>
          (if dt_le start_date d \<and> dt_le d end_date
           then file # filter_files_by_date files start_date end_date
           else filter_files_by_date files start_date end_date))"

section \<open>Tables\<close>

text \<open>
  An exception of the Python program that a model function can end with. \<open>NotFound\<close>
  is the storage client's error for a blob that does not exist.
\<close>

datatype error = KeyError | ValueError | TypeError | IndexError | AttributeError | NotFound

text \<open>
  A cell of a table read from a CSV file, by what the conversions of the program make of
  its text: \<open>NaN\<close> is a missing value (also NaT); \<open>Num r\<close> a field that denotes the
  number \<open>r\<close> (as it stands, or after \<open>','\<close> is replaced by \<open>'.'\<close>); \<open>Bool b\<close>
  one of the spellings of true and false that \<open>read_csv\<close> reads as a boolean when the
  whole column consists of them; \<open>Stamp t\<close> a field in the format
  \<open>%d-%m-%Y %H:%M:%S\<close> denoting the second \<open>t\<close> after 1970-01-01 00:00:00; and
  \<open>Str s\<close> any other text.
\<close>

datatype cell = NaN | Num rat | Bool bool | Str string | Stamp int

text \<open>A \<open>DataFrame\<close>: the column labels and the rows, in order.\<close>

record frame =
  columns :: "string list"
  rows :: "cell list list"

definition empty_frame :: frame where
  "empty_frame = \<lparr>columns = [], rows = []\<rparr>"

text \<open>\<open>df.empty\<close>: one of the two axes has length 0.\<close>

definition df_empty :: "frame \<Rightarrow> bool" where
  "df_empty df = (columns df = [] \<or> rows df = [])"

fun col_index :: "string list \<Rightarrow> string \<Rightarrow> nat option" where
  "col_index [] c = None"
| "col_index (x # xs) c = (if x = c then Some 0 else map_option Suc (col_index xs c))"

text \<open>A row shorter than the header has missing values in the columns it lacks.\<close>

definition nth_cell :: "cell list \<Rightarrow> nat \<Rightarrow> cell" where
  "nth_cell r i = (if i < length r then r ! i else NaN)"

text \<open>\<open>df[c]\<close>: the column labelled \<open>c\<close>, KeyError when there is none.\<close>

definition getitem :: "frame \<Rightarrow> string \<Rightarrow> error + cell list" where
  "getitem df c =
     (case col_index (columns df) c of
        None \<Rightarrow> Inl KeyError
      | Some i \<Rightarrow> Inr (map (\<lambda>r. nth_cell r i) (rows df)))"

text \<open>\<open>df[mask]\<close>: the rows at which the boolean series is true.\<close>

definition select_rows :: "frame \<Rightarrow> bool list \<Rightarrow> frame" where
  "select_rows df msk = df\<lparr>rows := map fst (filter snd (zip (rows df) msk))\<rparr>"

text \<open>\<open>df[c] = values\<close>: the column is replaced, or added as the last one.\<close>

definition setitem :: "frame \<Rightarrow> string \<Rightarrow> cell list \<Rightarrow> frame" where
  "setitem df c vals =
     (let n = length (columns df);
          pad = (\<lambda>r. r @ replicate (n - length r) NaN)
      in case col_index (columns df) c of
           Some i \<Rightarrow> df\<lparr>rows := map (\<lambda>(r, v). (pad r)[i := v]) (zip (rows df) vals)\<rparr>
         | None \<Rightarrow> df\<lparr>columns := columns df @ [c],
                      rows := map (\<lambda>(r, v). pad r @ [v]) (zip (rows df) vals)\<rparr>)"

text \<open>
  \<open>pd.concat([a, b], ignore_index=True)\<close>: the rows of \<open>a\<close>, then those of \<open>b\<close>, under
  the columns of \<open>a\<close> followed by the new ones of \<open>b\<close>; a cell of a column a frame
  does not have is missing.
\<close>

definition realign :: "string list \<Rightarrow> string list \<Rightarrow> cell list \<Rightarrow> cell list" where
  "realign old new r =
     map (\<lambda>c. case col_index old c of None \<Rightarrow> NaN | Some i \<Rightarrow> nth_cell r i) new"

definition concat_frames :: "frame \<Rightarrow> frame \<Rightarrow> frame" where
  "concat_frames a b =
     (let cols = columns a @ filter (\<lambda>c. c \<notin> set (columns a)) (columns b)
      in \<lparr>columns = cols,
          rows = map (realign (columns a) cols) (rows a) @
                 map (realign (columns b) cols) (rows b)\<rparr>)"

section \<open>Configuration\<close>

definition variable_names :: "string list" where
  "variable_names =
     [''AI Values_78TT001 - Analog input'',
      ''AI Values_78TT002 - Analog input'',
      ''AI Values_10TT002 - Analog input'',
      ''AI Values_20TTC001 - Analog input'',
      ''AI Values_20FTC003 - analog input'',
      ''AI Values_78FT001 - Analog input'',
      ''AI Values_20FTC002 - Analog input'',
      ''AI Values_20XTC001 - Analog input'',
      ''AI Values_20XTC002 - Analog input'',
      ''AI Values_20XT004 - Analog input'',
      ''AI Values_20XTC003 - Analog input'',
      ''AI Values_10PT001 - Analog input'',
      ''30P001.HMI.DATA_2'',
      ''30P002.HMI.DATA_2'',
      ''30P001.HMI.STATUS'',
      ''AO Values_10R001'',
      ''AO Values_10R002'',
      ''AO Values_10R003'',
      ''AI Values_20PT004 - Analog input'',
      ''AI Values_78PT002 - Analog input'',
      ''AI Values_78PT001 - Analog input'']"

text \<open>The degree sign of the temperature unit is the code point 176.\<close>

definition variable_units :: "(string \<times> string) list" where
  "variable_units =
     [(''AI Values_78TT001 - Analog input'', ''Temperature ('' @ [char_of (176 :: nat)] @ ''C)''),
      (''AI Values_78TT002 - Analog input'', ''Temperature ('' @ [char_of (176 :: nat)] @ ''C)''),
      (''AI Values_10TT002 - Analog input'', ''Temperature ('' @ [char_of (176 :: nat)] @ ''C)''),
      (''AI Values_20TTC001 - Analog input'', ''Temperature ('' @ [char_of (176 :: nat)] @ ''C)''),
      (''AI Values_20FTC003 - analog input'', ''Flowrate normal L/min''),
      (''AI Values_78FT001 - Analog input'', ''Flowrate m3/h''),
      (''AI Values_20FTC002 - Analog input'', ''Flowrate m3/h''),
      (''AI Values_20XTC001 - Analog input'', ''pH''),
      (''AI Values_20XTC002 - Analog input'', ''pH''),
      (''AI Values_20XT004 - Analog input'', ''Dissolved oxygen (%)''),
      (''AI Values_20XTC003 - Analog input'', ''Dissolved oxygen (%)''),
      (''AI Values_10PT001 - Analog input'', ''Pressure (bar?)''),
      (''30P001.HMI.DATA_2'', ''Pump state (ON/OFF)''),
      (''30P002.HMI.DATA_2'', ''Pump state (ON/OFF)''),
      (''30P001.HMI.STATUS'', ''Pump state (?)''),
      (''AO Values_10R001'', ''Light intensity (%)''),
      (''AO Values_10R002'', ''Light intensity (%)''),
      (''AO Values_10R003'', ''Light intensity (%)''),
      (''AI Values_20PT004 - Analog input'', ''Pressure (bar)''),
      (''AI Values_78PT002 - Analog input'', ''Pressure (bar)''),
      (''AI Values_78PT001 - Analog input'', ''Pressure (bar)'')]"

definition skip_variables :: "string list" where
  "skip_variables =
     [''30P001.HMI.DATA_2'',
      ''30P002.HMI.DATA_2'',
      ''30P001.HMI.STATUS'',
      ''AO Values_10R001'',
      ''AO Values_10R002'',
      ''AO Values_10R003'']"

section \<open>Floating point\<close>

text \<open>
  The values of float64: the finite ones by their exact value, the two infinities and
  NaN. Zero has no sign here: no operation of the filter tells the two zeros apart.
\<close>

datatype float64 = Finite rat | PosInf | NegInf | NotANumber

definition pow2 :: "int \<Rightarrow> rat" where
  "pow2 e = (if 0 \<le> e then 2 ^ nat e else 1 / 2 ^ nat (- e))"

text \<open>
  \<open>round64\<close> is the rounding of a number to float64: to the nearest value with a
  significand of 53 bits, a tie to the even significand. For \<open>x = p / q\<close> in lowest
  terms, \<open>e\<close> is the exponent with \<open>2 ^ e \<le> \<bar>x\<bar> < 2 ^ (e + 1)\<close> and \<open>2 ^ s\<close> the unit
  in the last place, \<open>s = e - 52\<close> but not below \<open>- 1074\<close>, where the subnormal numbers
  end; \<open>num / den\<close> is \<open>\<bar>x\<bar> / 2 ^ s\<close>, and \<open>n\<close> is that quotient rounded to an integer
  by its integer part \<open>f\<close> and remainder \<open>r\<close>. The result is \<open>n * 2 ^ s\<close> with the sign
  of \<open>x\<close>, or an infinity when \<open>n * 2 ^ s\<close> reaches \<open>2 ^ 1024\<close>, which is when the bit
  length of \<open>n\<close> and \<open>s\<close> add up to more than 1024.
\<close>

definition round64 :: "rat \<Rightarrow> float64" where
  "round64 x =
     (case quotient_of x of
        (p, q) \<Rightarrow>
          (if p = 0 then Finite 0
           else
             (let a = \<bar>p\<bar>;
                  e0 = bitlen a - bitlen q;
                  e = (if (if 0 \<le> e0 then q * 2 ^ nat e0 \<le> a else q \<le> a * 2 ^ nat (- e0))
                       then e0 else e0 - 1);
                  s = max (e - 52) (- 1074);
                  num = (if s < 0 then a * 2 ^ nat (- s) else a);
                  den = (if s < 0 then q else q * 2 ^ nat s);
                  f = num div den;
                  r = num mod den;
                  n = (if 2 * r < den then f
                       else if den < 2 * r then f + 1
                       else if even f then f else f + 1);
                  y = of_int n * pow2 s
              in if 1024 < bitlen n + s then (if 0 < p then PosInf else NegInf)
                 else Finite (if 0 < p then y else - y))))"

text \<open>The operations of float64 the filter uses: the exact result, rounded.\<close>

fun f_neg :: "float64 \<Rightarrow> float64" where
  "f_neg (Finite x) = Finite (- x)"
| "f_neg PosInf = NegInf"
| "f_neg NegInf = PosInf"
| "f_neg NotANumber = NotANumber"

fun f_add :: "float64 \<Rightarrow> float64 \<Rightarrow> float64" where
  "f_add (Finite x) (Finite y) = round64 (x + y)"
| "f_add NotANumber b = NotANumber"
| "f_add a NotANumber = NotANumber"
| "f_add PosInf NegInf = NotANumber"
| "f_add NegInf PosInf = NotANumber"
| "f_add PosInf b = PosInf"
| "f_add a PosInf = PosInf"
| "f_add NegInf b = NegInf"
| "f_add a NegInf = NegInf"

definition f_sub :: "float64 \<Rightarrow> float64 \<Rightarrow> float64" where
  "f_sub a b = f_add a (f_neg b)"

definition f_sign :: "float64 \<Rightarrow> int" where
  "f_sign a =
     (case a of
        Finite x \<Rightarrow> (if 0 < x then 1 else if x < 0 then - 1 else 0)
      | PosInf \<Rightarrow> 1
      | NegInf \<Rightarrow> - 1
      | NotANumber \<Rightarrow> 0)"

fun f_mul :: "float64 \<Rightarrow> float64 \<Rightarrow> float64" where
  "f_mul (Finite x) (Finite y) = round64 (x * y)"
| "f_mul NotANumber b = NotANumber"
| "f_mul a NotANumber = NotANumber"
| "f_mul a b =
     (if f_sign a * f_sign b = 0 then NotANumber
      else if 0 < f_sign a * f_sign b then PosInf else NegInf)"

fun f_le :: "float64 \<Rightarrow> float64 \<Rightarrow> bool" where
  "f_le (Finite x) (Finite y) = (x \<le> y)"
| "f_le NotANumber b = False"
| "f_le a NotANumber = False"
| "f_le NegInf b = True"
| "f_le a PosInf = True"
| "f_le a b = False"

text \<open>Sorting a list of float64 values without NaN, by insertion.\<close>

fun insort_f :: "float64 \<Rightarrow> float64 list \<Rightarrow> float64 list" where
  "insort_f x [] = [x]"
| "insort_f x (y # ys) = (if f_le x y then x # y # ys else y # insort_f x ys)"

definition sort_f :: "float64 list \<Rightarrow> float64 list" where
  "sort_f vs = foldr insort_f vs []"

section \<open>Outlier filter\<close>

text \<open>
  The column as float64 values, the missing ones left out: the program holds a number as
  the float64 nearest to what its field denotes. A column that holds text or booleans is
  a TypeError.
\<close>

fun numeric_values :: "cell list \<Rightarrow> error + float64 list" where
  "numeric_values [] = Inr []"
| "numeric_values (c # cs) =
     (case numeric_values cs of
        Inl e \<Rightarrow> Inl e
      | Inr vs \<Rightarrow>
          (case c of NaN \<Rightarrow> Inr vs | Num v \<Rightarrow> Inr (round64 v # vs) | _ \<Rightarrow> Inl TypeError))"

text \<open>
  \<open>Series.quantile(q)\<close> with the default linear interpolation, which is
  \<open>numpy.percentile\<close> (numpy 1.20 and later) on the values that are not missing: the
  values are sorted; the position \<open>q * (n - 1)\<close> is split into an index and a weight
  \<open>t\<close>, both exact for the two quartiles; the result is \<open>a + (b - a) * t\<close> between the
  neighbours \<open>a\<close> and \<open>b\<close>, or \<open>b - (b - a) * (1 - t)\<close> when \<open>t\<close> is at least one half,
  each operation rounded. With no value the quantile is NaN.
\<close>

definition lerp :: "float64 \<Rightarrow> float64 \<Rightarrow> rat \<Rightarrow> float64" where
  "lerp a b t =
     (let diff_b_a = f_sub b a
      in if t < 1 / 2 then f_add a (f_mul diff_b_a (Finite t))
         else f_sub b (f_mul diff_b_a (Finite (1 - t))))"

definition interpolate :: "rat \<Rightarrow> float64 list \<Rightarrow> float64" where
  "interpolate q s =
     (let pos = q * of_nat (length s - 1);
          lo = nat \<lfloor>pos\<rfloor>;
          hi = min (lo + 1) (length s - 1)
      in lerp (s ! lo) (s ! hi) (pos - of_nat lo))"

definition quartile :: "rat \<Rightarrow> float64 list \<Rightarrow> float64" where
  "quartile q vs = (if vs = [] then NotANumber else interpolate q (sort_f vs))"

definition quantile :: "rat \<Rightarrow> cell list \<Rightarrow> error + float64" where
  "quantile q col =
     (case numeric_values col of
        Inl e \<Rightarrow> Inl e
      | Inr vs \<Rightarrow> Inr (quartile q vs))"

text \<open>
  \<open>IQR = Q3 - Q1\<close>, \<open>lower_bound = Q1 - 1.5 * IQR\<close>, \<open>upper_bound = Q3 + 1.5 * IQR\<close>,
  in float64.
\<close>

definition iqr_bounds :: "float64 \<Rightarrow> float64 \<Rightarrow> float64 \<times> float64" where
  "iqr_bounds Q1 Q3 =
     (let IQR = f_sub Q3 Q1
      in (f_sub Q1 (f_mul (Finite (3 / 2)) IQR), f_add Q3 (f_mul (Finite (3 / 2)) IQR)))"

text \<open>
  The mask \<open>(df[column] >= lower_bound) & (df[column] <= upper_bound)\<close>: a comparison
  with NaN, on either side, is false.
\<close>

definition in_bounds :: "float64 \<times> float64 \<Rightarrow> cell \<Rightarrow> bool" where
  "in_bounds bounds c =
     (case bounds of
        (lower_bound, upper_bound) \<Rightarrow>
          (case c of
             Num v \<Rightarrow> f_le lower_bound (round64 v) \<and> f_le (round64 v) upper_bound
           | _ \<Rightarrow> False))"

definition remove_outliers :: "frame \<Rightarrow> string \<Rightarrow> error + frame" where
  "remove_outliers df column =
     (if column \<in> set skip_variables then Inr df
      else
        (case getitem df column of
           Inl e \<Rightarrow> Inl e
         | Inr col \<Rightarrow>
             (case quantile (1 / 4) col of
                Inl e \<Rightarrow> Inl e
              | Inr Q1 \<Rightarrow>
                  (case quantile (3 / 4) col of
                     Inl e \<Rightarrow> Inl e
                   | Inr Q3 \<Rightarrow> Inr (select_rows df (map (in_bounds (iqr_bounds Q1 Q3)) col))))))"

section \<open>Batch merger\<close>

text \<open>
  A bucket of raw exports is the listing of its blobs, each with the table \<open>read_csv\<close>
  makes of its text. The output bucket is a map from blob names to the tables written.
\<close>

definition endswith :: "string \<Rightarrow> string \<Rightarrow> bool" where
  "endswith s suffix =
     (length suffix \<le> length s \<and> drop (length s - length suffix) s = suffix)"

definition list_csv_files :: "(string \<times> frame) list \<Rightarrow> string list" where
  "list_csv_files bucket = filter (\<lambda>name. endswith name ''.csv'') (map fst bucket)"

text \<open>
  \<open>process_csv_file\<close>. \<open>extract_variables\<close> is its loop over the variable names, with
  the dictionary built so far; \<open>df['VarName']\<close> raises KeyError in a table without
  that column, and nothing in the function catches it.
\<close>

fun extract_variables ::
  "frame \<Rightarrow> string list \<Rightarrow> (string \<times> frame) list \<Rightarrow> error + (string \<times> frame) list" where
  "extract_variables df [] dataframes = Inr dataframes"
| "extract_variables df (var_name # rest) dataframes =
     (case getitem df ''VarName'' of
        Inl e \<Rightarrow> Inl e
      | Inr col \<Rightarrow>
          (let filtered_df = select_rows df (map (\<lambda>c. c = Str var_name) col)
           in extract_variables df rest
                (if \<not> df_empty filtered_df
                 then AList.update var_name filtered_df dataframes
                 else dataframes)))"

definition process_csv_file ::
  "(string \<times> frame) list \<Rightarrow> string \<Rightarrow> string list \<Rightarrow> error + (string \<times> frame) list" where
  "process_csv_file bucket file_name names =
     (case map_of bucket file_name of
        None \<Rightarrow> Inl NotFound
      | Some df \<Rightarrow> extract_variables df names [])"

text \<open>
  The merged variable file as the data model describes it: the rows of one variable,
  \<open>df[df['VarName'] == var_name]\<close>, of each file of the batch that has some, concatenated
  in the order of the files, starting from the empty table.
\<close>

definition variable_rows :: "frame \<Rightarrow> string \<Rightarrow> frame" where
  "variable_rows df var_name =
     (case getitem df ''VarName'' of
        Inl e \<Rightarrow> empty_frame
      | Inr col \<Rightarrow> select_rows df (map (\<lambda>c. c = Str var_name) col))"

definition append_rows :: "(string \<times> frame) list \<Rightarrow> string \<Rightarrow> frame \<Rightarrow> string \<Rightarrow> frame" where
  "append_rows bucket var_name acc file =
     (case map_of bucket file of
        None \<Rightarrow> acc
      | Some df \<Rightarrow>
          (if df_empty (variable_rows df var_name) then acc
           else concat_frames acc (variable_rows df var_name)))"

definition merged_rows :: "(string \<times> frame) list \<Rightarrow> string list \<Rightarrow> string \<Rightarrow> frame" where
  "merged_rows bucket files var_name = foldl (append_rows bucket var_name) empty_frame files"

text \<open>
  The state the callbacks share: the two buckets and the two module-level variables
  \<open>merged_dataframes\<close> and \<open>filename_prefixes\<close>.
\<close>

record state =
  primary_bucket :: "(string \<times> frame) list"
  output_bucket :: "string \<Rightarrow> frame option"
  merged_dataframes :: "(string \<times> frame) list"
  filename_prefixes :: "string list"

text \<open>
  The inner loop of \<open>update_file_list\<close> over \<open>dataframes.items()\<close>. Both loops return
  the accumulators as they are when the loop ends or an exception leaves it, with the
  exception if there is one.
\<close>

fun merge_dataframes ::
  "(string \<times> frame) list \<Rightarrow> (string \<times> frame) list \<Rightarrow> error option \<times> (string \<times> frame) list" where
  "merge_dataframes [] merged = (None, merged)"
| "merge_dataframes ((var_name, df) # rest) merged =
     (if \<not> df_empty df
      then (case map_of merged var_name of
              None \<Rightarrow> (Some KeyError, merged)
            | Some acc \<Rightarrow>
                merge_dataframes rest (AList.update var_name (concat_frames acc df) merged))
      else merge_dataframes rest merged)"

fun merge_files ::
  "(string \<times> frame) list \<Rightarrow> string list \<Rightarrow> (string \<times> frame) list
     \<Rightarrow> error option \<times> (string \<times> frame) list" where
  "merge_files bucket [] merged = (None, merged)"
| "merge_files bucket (file # files) merged =
     (case process_csv_file bucket file variable_names of
        Inl e \<Rightarrow> (Some e, merged)
      | Inr dataframes \<Rightarrow>
          (case merge_dataframes dataframes merged of
             (Some e, merged') \<Rightarrow> (Some e, merged')
           | (None, merged') \<Rightarrow> merge_files bucket files merged'))"

definition output_file :: "string \<Rightarrow> string \<Rightarrow> string" where
  "output_file filename_prefix var_name =
     filename_prefix @ ''_'' @ sanitize_filename var_name @ ''.csv''"

text \<open>
  The saving loop: a blob is written for each accumulator that is not empty, replacing
  the blob of that name. The content written is the table (\<open>to_csv\<close> and \<open>read_csv\<close>
  are not modelled). The second component is \<open>saved_files\<close>.
\<close>

fun save_files ::
  "string \<Rightarrow> (string \<times> frame) list \<Rightarrow> (string \<Rightarrow> frame option)
     \<Rightarrow> (string \<Rightarrow> frame option) \<times> string list" where
  "save_files filename_prefix [] bucket = (bucket, [])"
| "save_files filename_prefix ((var_name, df) # rest) bucket =
     (if \<not> df_empty df
      then (case save_files filename_prefix rest
                   (bucket(output_file filename_prefix var_name \<mapsto> df)) of
              (bucket', saved_files) \<Rightarrow>
                (bucket', output_file filename_prefix var_name # saved_files))
      else save_files filename_prefix rest bucket)"

text \<open>
  A date argument of the callback, by what \<open>datetime.fromisoformat\<close> makes of it:
  \<open>No_date\<close> is \<open>None\<close> or the empty string, \<open>Bad_date\<close> a string it rejects,
  \<open>Iso d\<close> a string it reads as the naive datetime \<open>d\<close>.
\<close>

datatype date_arg = No_date | Bad_date | Iso datetime

text \<open>
  What the callback returns, without the formatting of the messages and without the
  prefix options: the invalid-date message, the message \<open>No files selected.\<close>, or the
  selected files and the saved files.
\<close>

datatype response = Invalid_date_format | No_files_selected | Processed "string list" "string list"

text \<open>
  \<open>update_file_list\<close>: the response, or the exception that leaves the callback, and the
  state afterwards.
\<close>

definition update_file_list ::
  "int option \<Rightarrow> date_arg \<Rightarrow> date_arg \<Rightarrow> string option \<Rightarrow> state
     \<Rightarrow> (error + response) \<times> state" where
  "update_file_list n_clicks start_date end_date filename_prefix st =
     (case (n_clicks, filename_prefix) of
        (Some n, Some prefix) \<Rightarrow>
          (if n \<noteq> 0 \<and> start_date \<noteq> No_date \<and> end_date \<noteq> No_date \<and> prefix \<noteq> []
           then
             (case (start_date, end_date) of
                (Iso start_date_dt, Iso end_date_dt) \<Rightarrow>
                  (let csv_files = list_csv_files (primary_bucket st);
                       selected_files = filter_files_by_date csv_files start_date_dt end_date_dt
                   in if selected_files = [] then (Inr No_files_selected, st)
                      else
                        (case merge_files (primary_bucket st) selected_files
                                (map (\<lambda>var. (var, empty_frame)) variable_names) of
                           (Some e, merged) \<Rightarrow> (Inl e, st\<lparr>merged_dataframes := merged\<rparr>)
                         | (None, merged) \<Rightarrow>
                             (case save_files prefix merged (output_bucket st) of
                                (bucket', saved_files) \<Rightarrow>
                                  (Inr (Processed selected_files saved_files),
                                   st\<lparr>merged_dataframes := merged,
                                      output_bucket := bucket',
                                      filename_prefixes :=
                                        (if prefix \<in> set (filename_prefixes st)
                                         then filename_prefixes st
                                         else filename_prefixes st @ [prefix])\<rparr>))))
              | _ \<Rightarrow> (Inr Invalid_date_format, st))
           else (Inr No_files_selected, st))
      | _ \<Rightarrow> (Inr No_files_selected, st))"

section \<open>Series loader\<close>

text \<open>
  \<open>pd.to_datetime(..., format='%d-%m-%Y %H:%M:%S', errors='coerce')\<close> on one cell: a
  timestamp that does not fit the 64-bit count of nanoseconds (before 1677-09-21 00:12:44
  or after 2262-04-11 23:47:16) is coerced to NaT like a text that does not parse.
\<close>

definition to_datetime :: "cell \<Rightarrow> cell" where
  "to_datetime c =
     (case c of
        Stamp t \<Rightarrow> (if - 9223372036 \<le> t \<and> t \<le> 9223372036 then Stamp t else NaN)
      | _ \<Rightarrow> NaN)"

fun stamps :: "cell list \<Rightarrow> int list" where
  "stamps [] = []"
| "stamps (Stamp t # cs) = t # stamps cs"
| "stamps (_ # cs) = stamps cs"

fun least :: "int list \<Rightarrow> int option" where
  "least [] = None"
| "least (t # ts) = (case least ts of None \<Rightarrow> Some t | Some u \<Rightarrow> Some (min t u))"

fun greatest :: "int list \<Rightarrow> int option" where
  "greatest [] = None"
| "greatest (t # ts) = (case greatest ts of None \<Rightarrow> Some t | Some u \<Rightarrow> Some (max t u))"

text \<open>\<open>(df['TimeString'] - df['TimeString'].min()).dt.total_seconds() / 60\<close>\<close>

definition elapsed_minutes :: "cell list \<Rightarrow> cell list" where
  "elapsed_minutes ts =
     (case least (stamps ts) of
        None \<Rightarrow> map (\<lambda>_. NaN) ts
      | Some t0 \<Rightarrow>
          map (\<lambda>c. case c of Stamp t \<Rightarrow> Num (of_int (t - t0) / 60) | _ \<Rightarrow> NaN) ts)"

text \<open>
  The conversion of the value column,
  \<open>if df['VarValue'].dtype == 'object': ....str.replace(',', '.').astype(float)\<close>.
  A column of numbers and missing values is left as it is (or, read as text because of
  decimal commas, converts to the same numbers). A column of booleans alone has dtype
  \<open>bool\<close> and is left as it is. Booleans with missing values are objects that are not
  strings, where \<open>.str\<close> raises AttributeError. In every other column the fields are
  strings, and \<open>astype(float)\<close> raises ValueError at one that is not a number.
\<close>

definition is_text :: "cell \<Rightarrow> bool" where
  "is_text c = (case c of Str _ \<Rightarrow> True | Stamp _ \<Rightarrow> True | _ \<Rightarrow> False)"

definition is_bool :: "cell \<Rightarrow> bool" where
  "is_bool c = (case c of Bool _ \<Rightarrow> True | _ \<Rightarrow> False)"

definition is_number :: "cell \<Rightarrow> bool" where
  "is_number c = (case c of Num _ \<Rightarrow> True | _ \<Rightarrow> False)"

definition astype_float :: "cell list \<Rightarrow> error + cell list" where
  "astype_float col =
     (if list_ex is_text col \<or> (list_ex is_bool col \<and> list_ex is_number col)
      then Inl ValueError
      else if list_ex is_bool col \<and> list_ex (\<lambda>c. c = NaN) col then Inl AttributeError
      else Inr col)"

text \<open>
  \<open>.resample('1T').mean()\<close> on the value and elapsed-time columns, indexed by the
  timestamps in seconds: one bucket for each minute from that of the earliest timestamp
  to that of the latest, labelled by its first second, with the mean of the values of the
  rows falling in it, missing when there is none. Rows without a timestamp take no part.
  The mean, like the elapsed minutes above, is the exact number: its rounding to float64 is
  not modelled.
\<close>

fun numbers :: "cell list \<Rightarrow> rat list" where
  "numbers [] = []"
| "numbers (Num v # cs) = v # numbers cs"
| "numbers (_ # cs) = numbers cs"

definition mean :: "cell list \<Rightarrow> cell" where
  "mean cs =
     (let vs = numbers cs
      in if vs = [] then NaN else Num (sum_list vs / of_nat (length vs)))"

definition bucket_rows :: "int \<Rightarrow> (int \<times> cell \<times> cell) list \<Rightarrow> (int \<times> cell \<times> cell) list" where
  "bucket_rows k xs = filter (\<lambda>(t, v, e). t div 60 = k) xs"

definition resample_mean :: "(int \<times> cell \<times> cell) list \<Rightarrow> (int \<times> cell \<times> cell) list" where
  "resample_mean xs =
     (case (least (map fst xs), greatest (map fst xs)) of
        (Some t_min, Some t_max) \<Rightarrow>
          map (\<lambda>k. (60 * k,
                    mean (map (\<lambda>(t, v, e). v) (bucket_rows k xs)),
                    mean (map (\<lambda>(t, v, e). e) (bucket_rows k xs))))
              [t_min div 60 .. t_max div 60]
      | _ \<Rightarrow> [])"

text \<open>\<open>.fillna(method='ffill')\<close> on one column: a missing value takes the last value before it.\<close>

fun ffill :: "cell \<Rightarrow> cell list \<Rightarrow> cell list" where
  "ffill prev [] = []"
| "ffill prev (c # cs) = (if c = NaN then prev # ffill prev cs else c # ffill c cs)"

text \<open>
  A row of \<open>all_data\<close>, with the columns the plot and the export read.
\<close>

record point =
  TimeString :: cell
  VarValue :: cell
  ElapsedTime :: cell
  Variable :: string

definition cell_of :: "frame \<Rightarrow> string \<Rightarrow> cell list \<Rightarrow> cell" where
  "cell_of df c r = (case col_index (columns df) c of None \<Rightarrow> NaN | Some i \<Rightarrow> nth_cell r i)"

fun indexed_rows :: "frame \<Rightarrow> cell list list \<Rightarrow> (int \<times> cell \<times> cell) list" where
  "indexed_rows df [] = []"
| "indexed_rows df (r # rs) =
     (case cell_of df ''TimeString'' r of
        Stamp t \<Rightarrow> (t, cell_of df ''VarValue'' r, cell_of df ''ElapsedTime'' r) # indexed_rows df rs
      | _ \<Rightarrow> indexed_rows df rs)"

text \<open>
  \<open>df[['VarValue', 'ElapsedTime']].resample('1T').mean().fillna(method='ffill').reset_index()\<close>
  after \<open>df.set_index('TimeString')\<close>, with the variable name added.
\<close>

definition resampled :: "frame \<Rightarrow> string \<Rightarrow> point list" where
  "resampled df var_name =
     (let buckets = resample_mean (indexed_rows df (rows df));
          values = ffill NaN (map (\<lambda>(t, v, e). v) buckets);
          elapsed = ffill NaN (map (\<lambda>(t, v, e). e) buckets)
      in map (\<lambda>((t, v0, e0), v, e).
                \<lparr>TimeString = Stamp t, VarValue = v, ElapsedTime = e, Variable = var_name\<rparr>)
             (zip buckets (zip values elapsed)))"

text \<open>\<open>df.reset_index()\<close> with the variable name added: the rows as they are.\<close>

definition unsampled :: "frame \<Rightarrow> string \<Rightarrow> point list" where
  "unsampled df var_name =
     map (\<lambda>r. \<lparr>TimeString = cell_of df ''TimeString'' r, VarValue = cell_of df ''VarValue'' r,
               ElapsedTime = cell_of df ''ElapsedTime'' r, Variable = var_name\<rparr>) (rows df)"

text \<open>
  The body of the first loop of \<open>update_graph\<close>, for one selected value: the rows it
  adds to \<open>all_data\<close>, none when the value is passed over (no underscore, no blob of
  that name, a column missing, no timestamp that parses), or the exception that leaves
  the callback; only the unpacking of the split is inside a \<open>try\<close>.
\<close>

definition load_variable :: "(string \<Rightarrow> frame option) \<Rightarrow> string \<Rightarrow> error + point list" where
  "load_variable bucket var =
     (case split_once var of
        None \<Rightarrow> Inr []
      | Some (prefix, var_name) \<Rightarrow>
          (case bucket (file_path prefix var_name) of
             None \<Rightarrow> Inr []
           | Some df \<Rightarrow>
               (if ''TimeString'' \<in> set (columns df) \<and> ''VarValue'' \<in> set (columns df)
                then
                  (case getitem df ''TimeString'' of
                     Inl e \<Rightarrow> Inl e
                   | Inr raw \<Rightarrow>
                       (let ts = map to_datetime raw;
                            df1 = setitem df ''TimeString'' ts
                        in if list_all (\<lambda>c. c = NaN) ts then Inr []
                           else
                             (let df2 = setitem df1 ''ElapsedTime'' (elapsed_minutes ts)
                              in case getitem df2 ''VarValue'' of
                                   Inl e \<Rightarrow> Inl e
                                 | Inr col \<Rightarrow>
                                     (case astype_float col of
                                        Inl e \<Rightarrow> Inl e
                                      | Inr floats \<Rightarrow>
                                          (case remove_outliers (setitem df2 ''VarValue'' floats)
                                                  ''VarValue'' of
                                             Inl e \<Rightarrow> Inl e
                                           | Inr df3 \<Rightarrow>
                                               Inr (if var_name \<notin> set skip_variables
                                                    then resampled df3 var_name
                                                    else unsampled df3 var_name))))))
                else Inr [])))"

text \<open>The first loop of \<open>update_graph\<close>: \<open>all_data\<close> for the selected process variables.\<close>

fun load_variables :: "(string \<Rightarrow> frame option) \<Rightarrow> string list \<Rightarrow> error + point list" where
  "load_variables bucket [] = Inr []"
| "load_variables bucket (var # vars) =
     (case load_variable bucket var of
        Inl e \<Rightarrow> Inl e
      | Inr new_rows \<Rightarrow>
          (case load_variables bucket vars of
             Inl e \<Rightarrow> Inl e
           | Inr later_rows \<Rightarrow> Inr (new_rows @ later_rows)))"

section \<open>Plot assembler\<close>

text \<open>
  The loop of \<open>update_graph\<close> over \<open>all_data.groupby('Variable')\<close>. A trace is the
  variable it shows, its unit, the kind of drawing and the \<open>secondary_y\<close> it is added
  with; the figure has one primary and one secondary axis. \<open>yaxes_used\<close> is the
  dictionary from units to slots, in insertion order.
\<close>

datatype trace_kind = Manual_scatter | Offline_bar | Process_line

record trace =
  trace_variable :: string
  yaxis_title :: string
  kind :: trace_kind
  secondary_y :: bool

definition unit_of :: "(string \<times> string) list \<Rightarrow> string \<Rightarrow> string" where
  "unit_of variable_unit_map var_name =
     (case map_of variable_unit_map var_name of None \<Rightarrow> ''Value'' | Some u \<Rightarrow> u)"

fun add_traces ::
  "(string \<times> string) list \<Rightarrow> string list \<Rightarrow> string list \<Rightarrow> (string \<times> nat) list
     \<Rightarrow> string list \<Rightarrow> trace list" where
  "add_traces variable_unit_map manual_variables new_variables yaxes_used [] = []"
| "add_traces variable_unit_map manual_variables new_variables yaxes_used (var_name # groups) =
     (let title = unit_of variable_unit_map var_name;
          yaxes_used' = (case map_of yaxes_used title of
                           None \<Rightarrow> yaxes_used @ [(title, length yaxes_used + 1)]
                         | Some slot \<Rightarrow> yaxes_used);
          slot = (case map_of yaxes_used title of
                    None \<Rightarrow> length yaxes_used + 1
                  | Some slot \<Rightarrow> slot)
      in \<lparr>trace_variable = var_name, yaxis_title = title,
          kind = (if var_name \<in> set manual_variables then Manual_scatter
                  else if var_name \<in> set new_variables then Offline_bar
                  else Process_line),
          secondary_y = (slot > 1)\<rparr>
         # add_traces variable_unit_map manual_variables new_variables yaxes_used' groups)"

text \<open>The groups are the distinct variable names of \<open>all_data\<close>, in sorted order.\<close>

definition plot_traces ::
  "(string \<times> string) list \<Rightarrow> string list \<Rightarrow> string list \<Rightarrow> point list \<Rightarrow> trace list" where
  "plot_traces variable_unit_map manual_variables new_variables all_data =
     add_traces variable_unit_map manual_variables new_variables []
       (sort (remdups (map Variable all_data)))"

text \<open>
  \<open>update_graph\<close> for a selection of process variables alone (no offline and no manual
  variable): the message for an empty selection, the message for no data, or the traces
  of the figure; or the exception that leaves the callback. The export records are not
  modelled beyond the IndexError that \<open>var.split('_', 1)[1]\<close> raises, when there is
  data, at a selected value without underscore. The order of the rows of \<open>all_data\<close>
  does not matter to the groups.
\<close>

datatype figure = Please_select_variables | No_data_to_display | Figure "trace list"

definition update_graph :: "(string \<Rightarrow> frame option) \<Rightarrow> string list \<Rightarrow> error + figure" where
  "update_graph bucket selected_variables =
     (if selected_variables = [] then Inr Please_select_variables
      else
        (case load_variables bucket selected_variables of
           Inl e \<Rightarrow> Inl e
         | Inr all_data \<Rightarrow>
             (if all_data = [] then Inr No_data_to_display
              else if list_ex (\<lambda>var. split_once var = None) selected_variables
              then Inl IndexError
              else Inr (Figure (plot_traces variable_units [] [] all_data)))))"

text \<open>
  \<open>yaxes_used\<close> after the units \<open>ks\<close> have been seen in that order, the first of
  them in slot \<open>a\<close>.
\<close>

fun slots :: "nat \<Rightarrow> string list \<Rightarrow> (string \<times> nat) list" where
  "slots a [] = []"
| "slots a (k # ks) = (k, a) # slots (Suc a) ks"

section \<open>Example inputs\<close>

text \<open>
  A merged file with the values 1, 2, 3, 4 and 100, one reading a minute, and one with
  the values 0.3, 0.4, 0.5, 0.6 and 0.9; the output bucket holding the first for the
  batch \<open>B1\<close> under a variable of the skip list; and the
  output bucket holding two readings three minutes apart, 10 and 20, for a variable that
  is not on the skip list.
\<close>

definition outlier_example :: frame where
  "outlier_example =
     \<lparr>columns = [''TimeString'', ''VarValue''],
      rows = [[Stamp 0, Num 1], [Stamp 60, Num 2], [Stamp 120, Num 3], [Stamp 180, Num 4],
              [Stamp 240, Num 100]]\<rparr>"

definition fence_example :: frame where
  "fence_example =
     \<lparr>columns = [''TimeString'', ''VarValue''],
      rows = [[Stamp 0, Num (3 / 10)], [Stamp 60, Num (4 / 10)], [Stamp 120, Num (5 / 10)],
              [Stamp 180, Num (6 / 10)], [Stamp 240, Num (9 / 10)]]\<rparr>"

definition skip_example :: "string \<Rightarrow> frame option" where
  "skip_example =
     [''B1_AO Values_10R001.csv'' \<mapsto>
        \<lparr>columns = [''TimeString'', ''VarValue''],
         rows = [[Stamp 0, Num 1], [Stamp 60, Num 2], [Stamp 120, Num 3], [Stamp 180, Num 4],
                 [Stamp 240, Num 100]]\<rparr>]"



text \<open>
  A raw export with rows of two of the configured variables and of another one, and a
  table without the column \<open>VarName\<close>; a state whose January files are two copies of the
  first, and one in which the second January file is the table without that column.
\<close>

definition raw_example :: frame where
  "raw_example =
     \<lparr>columns = [''VarName'', ''TimeString'', ''VarValue''],
      rows = [[Str ''AO Values_10R001'', Stamp 0, Num 1],
              [Str ''other'', Stamp 0, Num 5],
              [Str ''30P001.HMI.STATUS'', Stamp 60, Num 0]]\<rparr>"

definition no_varname_example :: frame where
  "no_varname_example =
     \<lparr>columns = [''TimeString'', ''VarValue''], rows = [[Stamp 0, Num 1]]\<rparr>"

definition merge_example :: state where
  "merge_example =
     \<lparr>primary_bucket = [(''a_b_20240115_c.csv'', raw_example), (''a_b_20240116_c.csv'', raw_example)],
      output_bucket = Map.empty,
      merged_dataframes = [],
      filename_prefixes = []\<rparr>"

definition bad_file_example :: state where
  "bad_file_example =
     \<lparr>primary_bucket = [(''a_b_20240115_c.csv'', raw_example),
                        (''a_b_20240116_c.csv'', no_varname_example)],
      output_bucket = Map.empty,
      merged_dataframes = [],
      filename_prefixes = []\<rparr>"

definition january :: "date_arg \<times> date_arg" where
  "january = (Iso \<lparr>year = 2024, month = 1, day = 1, micros = 0\<rparr>,
              Iso \<lparr>year = 2024, month = 1, day = 31, micros = 0\<rparr>)"

text \<open>
  An output bucket with the merged files of two variables; in the second file one value
  is a text that is not a number.
\<close>

definition bad_value_example :: "string \<Rightarrow> frame option" where
  "bad_value_example =
     [''B1_AI Values_78TT001 - Analog input.csv'' \<mapsto>
        \<lparr>columns = [''TimeString'', ''VarValue''],
         rows = [[Stamp 0, Num 10], [Stamp 180, Num 20]]\<rparr>,
      ''B1_AI Values_78TT002 - Analog input.csv'' \<mapsto>
        \<lparr>columns = [''TimeString'', ''VarValue''],
         rows = [[Stamp 0, Num 10], [Stamp 60, Str ''bad'']]\<rparr>]"

section \<open>Properties of the file names\<close>

lemma isalnum_not_isspace: "isalnum c \<Longrightarrow> \<not> isspace c"
  unfolding isalnum_def isspace_def Let_def by auto

lemma sanitize_char_idem: "sanitize_char (sanitize_char c) = sanitize_char c"
  by (simp add: sanitize_char_def)

lemma sanitize_char_allowed:
  "isalnum (sanitize_char c) \<or> sanitize_char c \<in> {CHR '' '', CHR ''_'', CHR ''-''}"
  by (simp add: sanitize_char_def)

lemma isspace_sanitize_char: "isspace (sanitize_char c) \<longleftrightarrow> sanitize_char c = CHR '' ''"
proof -
  have "\<not> isspace CHR ''_''" "\<not> isspace CHR ''-''" "isspace CHR '' ''"
    by (simp_all add: isspace_def)
  then show ?thesis
    using isalnum_not_isspace[of c] by (auto simp: sanitize_char_def)
qed

lemma rstrip_decomp: "\<exists>ws. s = rstrip s @ ws \<and> (\<forall>c\<in>set ws. isspace c)"
proof -
  have "rev s = takeWhile isspace (rev s) @ dropWhile isspace (rev s)" by simp
  then have "s = rev (dropWhile isspace (rev s)) @ rev (takeWhile isspace (rev s))"
    by (metis rev_append rev_rev_ident)
  moreover have "\<forall>c\<in>set (rev (takeWhile isspace (rev s))). isspace c"
    by (auto dest: set_takeWhileD)
  ultimately show ?thesis unfolding rstrip_def by blast
qed

lemma rstrip_last: "rstrip s = [] \<or> \<not> isspace (last (rstrip s))"
proof (cases "dropWhile isspace (rev s)")
  case Nil
  then show ?thesis by (simp add: rstrip_def)
next
  case (Cons a as)
  then have "\<not> isspace a" by (metis hd_dropWhile list.sel(1) list.distinct(1))
  with Cons show ?thesis by (simp add: rstrip_def)
qed

lemma rstrip_idem: "rstrip (rstrip s) = rstrip s"
  by (simp add: rstrip_def)

lemma set_rstrip: "set (rstrip s) \<subseteq> set s"
  unfolding rstrip_def by (auto dest: set_dropWhileD)

lemma sanitize_chars: "set (sanitize_filename s) \<subseteq> range sanitize_char"
  using set_rstrip[of "map sanitize_char s"] by (auto simp: sanitize_filename_def)

text \<open>
  C10. \<open>sanitize_filename\<close> is idempotent: sanitizing a sanitized name changes nothing,
  because every character of a sanitized name is alphanumeric, a space, an underscore or
  a hyphen, and a sanitized name does not end in whitespace.
\<close>

theorem sanitize_filename_idempotent:
  "sanitize_filename (sanitize_filename s) = sanitize_filename s \<and>
   (\<forall>c \<in> set (sanitize_filename s). isalnum c \<or> c \<in> {CHR '' '', CHR ''_'', CHR ''-''}) \<and>
   (sanitize_filename s = [] \<or> \<not> isspace (last (sanitize_filename s)))"
proof -
  have fixed: "map sanitize_char (sanitize_filename s) = sanitize_filename s"
  proof (rule map_idI)
    fix c assume "c \<in> set (sanitize_filename s)"
    then obtain d where "c = sanitize_char d" using sanitize_chars by blast
    then show "sanitize_char c = c" by (simp add: sanitize_char_idem)
  qed
  have 1: "sanitize_filename (sanitize_filename s) = sanitize_filename s"
    unfolding sanitize_filename_def[of "sanitize_filename s"] fixed
    by (simp add: sanitize_filename_def rstrip_idem)
  have 2: "\<forall>c \<in> set (sanitize_filename s). isalnum c \<or> c \<in> {CHR '' '', CHR ''_'', CHR ''-''}"
  proof
    fix c assume "c \<in> set (sanitize_filename s)"
    then obtain d where "c = sanitize_char d" using sanitize_chars by blast
    then show "isalnum c \<or> c \<in> {CHR '' '', CHR ''_'', CHR ''-''}"
      using sanitize_char_allowed[of d] by simp
  qed
  have 3: "sanitize_filename s = [] \<or> \<not> isspace (last (sanitize_filename s))"
    unfolding sanitize_filename_def by (rule rstrip_last)
  from 1 2 3 show ?thesis by blast
qed

theorem sanitize_filename_idempotent_witness:
  "sanitize_filename (sanitize_filename ''pH (a.u.) '') = ''pH _a_u__'' \<and>
   sanitize_filename ''pH (a.u.) '' = ''pH _a_u__''"
proof -
  have e: "sanitize_filename ''pH (a.u.) '' = ''pH _a_u__''"
    by (simp add: sanitize_filename_def sanitize_char_def rstrip_def isalnum_def isspace_def)
  show ?thesis using sanitize_filename_idempotent[of "''pH (a.u.) ''"] e by simp
qed

text \<open>
  C8. \<open>sanitize_filename\<close> replaces each character that is neither alphanumeric nor a
  space, an underscore or a hyphen by an underscore, and strips the trailing whitespace:
  the name with its characters replaced is the result followed by whitespace only, and
  the result does not end in whitespace. \<open>"A/B C"\<close> becomes \<open>"A_B C"\<close>.
\<close>

theorem sanitize_filename_spec:
  "(\<exists>ws. map (\<lambda>c. if isalnum c \<or> c = CHR '' '' \<or> c = CHR ''_'' \<or> c = CHR ''-'' then c else CHR ''_'') s
          = sanitize_filename s @ ws \<and> (\<forall>c \<in> set ws. isspace c)) \<and>
   (sanitize_filename s = [] \<or> \<not> isspace (last (sanitize_filename s))) \<and>
   sanitize_filename ''A/B C'' = ''A_B C''"
proof -
  have m: "(\<lambda>c. if isalnum c \<or> c = CHR '' '' \<or> c = CHR ''_'' \<or> c = CHR ''-'' then c else CHR ''_'')
           = sanitize_char"
    by (rule ext) (simp add: sanitize_char_def)
  have 1: "\<exists>ws. map sanitize_char s = sanitize_filename s @ ws \<and> (\<forall>c \<in> set ws. isspace c)"
    unfolding sanitize_filename_def by (rule rstrip_decomp)
  have 2: "sanitize_filename s = [] \<or> \<not> isspace (last (sanitize_filename s))"
    unfolding sanitize_filename_def by (rule rstrip_last)
  have 3: "sanitize_filename ''A/B C'' = ''A_B C''"
    by (simp add: sanitize_filename_def sanitize_char_def rstrip_def isalnum_def isspace_def)
  from 1 2 3 show ?thesis unfolding m by blast
qed

theorem sanitize_filename_spec_witness:
  "sanitize_filename ''a.b  '' = ''a_b'' \<and>
   (\<exists>ws. ''a_b  '' = sanitize_filename ''a.b  '' @ ws \<and> (\<forall>c \<in> set ws. isspace c))"
proof -
  have e: "sanitize_filename ''a.b  '' = ''a_b''"
    by (simp add: sanitize_filename_def sanitize_char_def rstrip_def isalnum_def isspace_def)
  have a: "\<And>c. c = CHR ''.'' \<Longrightarrow> \<not> isalnum c" "isalnum CHR ''a''" "isalnum CHR ''b''"
    by (simp_all add: isalnum_def)
  show ?thesis using sanitize_filename_spec[of "''a.b  ''"] e a by simp
qed

lemma split_once_append:
  "split_once (p @ CHR ''_'' # v) = Some (takeWhile (\<lambda>c. c \<noteq> CHR ''_'') p,
      tl (dropWhile (\<lambda>c. c \<noteq> CHR ''_'') (p @ CHR ''_'' # v)))"
  by (induction p) auto

lemma split_once_join:
  "split_once s = Some (p, v) \<Longrightarrow> s = p @ CHR ''_'' # v \<and> CHR ''_'' \<notin> set p"
  by (induction s arbitrary: p v) (auto split: if_splits option.splits)

text \<open>
  C9. \<open>update_graph\<close> recovers a prefix and a variable name from the dropdown value
  \<open>f"{prefix}_{variable}"\<close> by cutting at the first underscore. The cut always succeeds,
  the blob name built from the two parts is the dropdown value followed by \<open>.csv\<close>,
  the recovered pair is the original one exactly when the prefix has no underscore, and
  so is the recovered variable name.
\<close>

theorem prefix_variable_roundtrip:
  "\<exists>p v. split_once (labeled_var_name prefix variable) = Some (p, v) \<and>
         file_path p v = labeled_var_name prefix variable @ ''.csv'' \<and>
         ((p, v) = (prefix, variable) \<longleftrightarrow> CHR ''_'' \<notin> set prefix) \<and>
         (v = variable \<longleftrightarrow> CHR ''_'' \<notin> set prefix)"
proof -
  obtain p v where s: "split_once (labeled_var_name prefix variable) = Some (p, v)"
    using split_once_append[of prefix variable] by (simp add: labeled_var_name_def)
  from split_once_join[OF s]
  have j: "prefix @ CHR ''_'' # variable = p @ CHR ''_'' # v" and np: "CHR ''_'' \<notin> set p"
    by (simp_all add: labeled_var_name_def)
  have fp: "file_path p v = labeled_var_name prefix variable @ ''.csv''"
    using j by (simp add: file_path_def labeled_var_name_def)
  have a: "v = variable \<longleftrightarrow> p = prefix"
  proof
    assume "v = variable"
    with j show "p = prefix" by simp
  next
    assume "p = prefix"
    with j show "v = variable" by simp
  qed
  have b: "p = prefix \<longleftrightarrow> CHR ''_'' \<notin> set prefix"
  proof
    assume "p = prefix" with np show "CHR ''_'' \<notin> set prefix" by simp
  next
    assume n: "CHR ''_'' \<notin> set prefix"
    have "takeWhile (\<lambda>c. c \<noteq> CHR ''_'') prefix = prefix"
      using n by (induction prefix) auto
    with s split_once_append[of prefix variable] show "p = prefix"
      by (simp add: labeled_var_name_def)
  qed
  from s fp a b show ?thesis by auto
qed

theorem prefix_variable_roundtrip_witness:
  "(\<exists>p v. split_once (labeled_var_name ''B_1'' ''AO Values_10R001'') = Some (p, v) \<and>
          file_path p v = ''B_1_AO Values_10R001.csv'' \<and> v \<noteq> ''AO Values_10R001'') \<and>
   split_once (labeled_var_name ''B1'' ''AO Values_10R001'') = Some (''B1'', ''AO Values_10R001'')"
proof -
  have a: "CHR ''_'' \<in> set ''B_1''" "CHR ''_'' \<notin> set ''B1''" by simp_all
  have l: "labeled_var_name ''B_1'' ''AO Values_10R001'' @ ''.csv'' = ''B_1_AO Values_10R001.csv''"
    by (simp add: labeled_var_name_def)
  have b: "\<exists>p v. split_once (labeled_var_name ''B_1'' ''AO Values_10R001'') = Some (p, v) \<and>
          file_path p v = ''B_1_AO Values_10R001.csv'' \<and> v \<noteq> ''AO Values_10R001''"
    using prefix_variable_roundtrip[of "''B_1''" "''AO Values_10R001''"] a(1) unfolding l by blast
  have c: "split_once (labeled_var_name ''B1'' ''AO Values_10R001'') = Some (''B1'', ''AO Values_10R001'')"
    using prefix_variable_roundtrip[of "''B1''" "''AO Values_10R001''"] a(2) by auto
  from b c show ?thesis by simp
qed

section \<open>Properties of the date filter\<close>

lemmas strptime_defs =
  file_date_def strptime_Ymd_def re_Ymd_def re_d_def re_m_def two_chars_def one_char_def
  chr_in_def is_digit_def digit_val_def days_in_month_def is_leap_def

lemma filter_files_by_date_filter:
  "filter_files_by_date files s e =
     filter (\<lambda>f. case file_date f of None \<Rightarrow> False | Some d \<Rightarrow> dt_le s d \<and> dt_le d e) files"
  by (induction files) (auto split: option.splits)

lemma file_date_third_token:
  "file_date ''x_y_20240115_z.csv'' = Some \<lparr>year = 2024, month = 1, day = 15, micros = 0\<rparr>"
  by (simp add: strptime_defs)

lemma file_date_second_token: "file_date ''x_20240115_y.csv'' = None"
  by (simp add: strptime_defs)

text \<open>
  C3, as the code has it. The filter keeps, in listing order, exactly the names with at
  least three underscore-delimited parts whose third part \<open>strptime\<close> reads as a date
  in the inclusive range; every other name is skipped and the loop goes on. The third
  part of \<open>x_20240115_y.csv\<close> is \<open>y.csv\<close>, so that name is skipped for every range,
  while \<open>x_y_20240115_z.csv\<close> is kept for January 2024 and not for February 2024.
\<close>

theorem filter_files_by_date_third_part:
  "filter_files_by_date files start_date end_date =
     filter (\<lambda>f. 3 \<le> length (str_split f) \<and>
                 (\<exists>d. strptime_Ymd (str_split f ! 2) = Some d \<and>
                      dt_le start_date d \<and> dt_le d end_date)) files \<and>
   filter_files_by_date [''x_20240115_y.csv'', ''x_y_20240115_z.csv'']
     \<lparr>year = 2024, month = 1, day = 1, micros = 0\<rparr>
     \<lparr>year = 2024, month = 1, day = 31, micros = 0\<rparr> = [''x_y_20240115_z.csv''] \<and>
   filter_files_by_date [''x_20240115_y.csv'', ''x_y_20240115_z.csv'']
     \<lparr>year = 2024, month = 2, day = 1, micros = 0\<rparr>
     \<lparr>year = 2024, month = 2, day = 28, micros = 0\<rparr> = [] \<and>
   filter_files_by_date [''x_20240115_y.csv''] start_date end_date = []"
proof -
  have p: "(case file_date f of None \<Rightarrow> False | Some d \<Rightarrow> dt_le start_date d \<and> dt_le d end_date) =
           (3 \<le> length (str_split f) \<and>
             (\<exists>d. strptime_Ymd (str_split f ! 2) = Some d \<and>
                  dt_le start_date d \<and> dt_le d end_date))" for f
    by (auto simp: file_date_def Let_def split: option.splits)
  have 1: "filter_files_by_date files start_date end_date =
     filter (\<lambda>f. 3 \<le> length (str_split f) \<and>
                 (\<exists>d. strptime_Ymd (str_split f ! 2) = Some d \<and>
                      dt_le start_date d \<and> dt_le d end_date)) files"
    unfolding filter_files_by_date_filter p ..
  have 2: "filter_files_by_date [''x_20240115_y.csv'', ''x_y_20240115_z.csv'']
     \<lparr>year = 2024, month = 1, day = 1, micros = 0\<rparr>
     \<lparr>year = 2024, month = 1, day = 31, micros = 0\<rparr> = [''x_y_20240115_z.csv'']"
    by (simp add: file_date_third_token file_date_second_token dt_le_def)
  have 3: "filter_files_by_date [''x_20240115_y.csv'', ''x_y_20240115_z.csv'']
     \<lparr>year = 2024, month = 2, day = 1, micros = 0\<rparr>
     \<lparr>year = 2024, month = 2, day = 28, micros = 0\<rparr> = []"
    by (simp add: file_date_third_token file_date_second_token dt_le_def)
  have 4: "filter_files_by_date [''x_20240115_y.csv''] start_date end_date = []"
    by (simp add: file_date_second_token)
  from 1 2 3 4 show ?thesis by blast
qed

text \<open>
  The example of C3 as the specification states it fails: \<open>x_20240115_y.csv\<close> is not
  kept for the range from 2024-01-01 to 2024-01-31.
\<close>

theorem filter_files_by_date_example_counterexample:
  "''x_20240115_y.csv'' \<notin> set (filter_files_by_date [''x_20240115_y.csv'']
     \<lparr>year = 2024, month = 1, day = 1, micros = 0\<rparr>
     \<lparr>year = 2024, month = 1, day = 31, micros = 0\<rparr>)"
  by (simp add: file_date_second_token)

section \<open>Properties of the outlier filter\<close>




lemma remove_outliers_fence_example:
  "remove_outliers fence_example ''VarValue'' =
     Inr \<lparr>columns = [''TimeString'', ''VarValue''],
          rows = [[Stamp 0, Num (3 / 10)], [Stamp 60, Num (4 / 10)], [Stamp 120, Num (5 / 10)],
                  [Stamp 180, Num (6 / 10)]]\<rparr>"
  by code_simp

lemma fence_example_upper_bound:
  "snd (iqr_bounds (round64 (4 / 10)) (round64 (6 / 10))) =
     Finite (2026619832316723 / 2251799813685248)"
  by code_simp



section \<open>Properties of the series loader\<close>

lemma load_skip_example:
  "load_variable skip_example ''B1_AO Values_10R001'' =
     Inr [\<lparr>TimeString = Stamp 0, VarValue = Num 1, ElapsedTime = Num 0, Variable = ''AO Values_10R001''\<rparr>,
          \<lparr>TimeString = Stamp 60, VarValue = Num 2, ElapsedTime = Num 1, Variable = ''AO Values_10R001''\<rparr>,
          \<lparr>TimeString = Stamp 120, VarValue = Num 3, ElapsedTime = Num 2, Variable = ''AO Values_10R001''\<rparr>,
          \<lparr>TimeString = Stamp 180, VarValue = Num 4, ElapsedTime = Num 3, Variable = ''AO Values_10R001''\<rparr>]"
  by code_simp


lemma ffill_length [simp]: "length (ffill p cs) = length cs"
  by (induction cs arbitrary: p) auto

lemma ffill_hd: "cs \<noteq> [] \<Longrightarrow> ffill p cs ! 0 = (if cs ! 0 = NaN then p else cs ! 0)"
  by (cases cs) auto







text \<open>
  C1, as the code has it. \<open>remove_outliers\<close> leaves the rows as they are when the column
  it is given is on the skip list, but \<open>update_graph\<close> gives it the column \<open>VarValue\<close>,
  never the variable name: for the skip-list variable \<open>AO Values_10R001\<close> with the
  values 1, 2, 3, 4, 100 the loaded series has lost the value 100.
\<close>

theorem skip_list_variable_filtered:
  "''AO Values_10R001'' \<in> set skip_variables \<and>
   remove_outliers outlier_example ''AO Values_10R001'' = Inr outlier_example \<and>
   skip_example (file_path ''B1'' ''AO Values_10R001'') = Some outlier_example \<and>
   load_variable skip_example ''B1_AO Values_10R001'' =
     Inr [\<lparr>TimeString = Stamp 0, VarValue = Num 1, ElapsedTime = Num 0, Variable = ''AO Values_10R001''\<rparr>,
          \<lparr>TimeString = Stamp 60, VarValue = Num 2, ElapsedTime = Num 1, Variable = ''AO Values_10R001''\<rparr>,
          \<lparr>TimeString = Stamp 120, VarValue = Num 3, ElapsedTime = Num 2, Variable = ''AO Values_10R001''\<rparr>,
          \<lparr>TimeString = Stamp 180, VarValue = Num 4, ElapsedTime = Num 3, Variable = ''AO Values_10R001''\<rparr>]"
proof -
  have 1: "''AO Values_10R001'' \<in> set skip_variables" by (simp add: skip_variables_def)
  have 2: "remove_outliers outlier_example ''AO Values_10R001'' = Inr outlier_example"
    using 1 by (simp add: remove_outliers_def)
  have 3: "skip_example (file_path ''B1'' ''AO Values_10R001'') = Some outlier_example"
    by (simp add: skip_example_def file_path_def outlier_example_def)
  from 1 2 3 load_skip_example show ?thesis by blast
qed

section \<open>Properties of the plot assembler\<close>

lemma slots_length: "length (slots a ks) = length ks"
  by (induction ks arbitrary: a) simp_all

lemma slots_snoc: "slots a ks @ [(t, a + length ks)] = slots a (ks @ [t])"
proof (induction ks arbitrary: a)
  case Nil
  then show ?case by simp
next
  case (Cons k ks)
  from Cons[of "Suc a"] show ?case by simp
qed

lemma slots_absent: "t \<notin> set ks \<Longrightarrow> map_of (slots a ks) t = None"
  by (induction ks arbitrary: a) simp_all

lemma slots_later: "map_of (slots a ks) t = Some n \<Longrightarrow> a \<le> n"
proof (induction ks arbitrary: a)
  case Nil
  then show ?case by simp
next
  case (Cons k ks)
  then show ?case
    by (auto split: if_splits dest: Suc_leD)
qed

lemma slots_present:
  "t \<in> set ks \<Longrightarrow> \<exists>n. map_of (slots a ks) t = Some n \<and> (a < n \<longleftrightarrow> t \<noteq> hd ks)"
proof (induction ks arbitrary: a)
  case Nil
  then show ?case by simp
next
  case (Cons k ks)
  show ?case
  proof (cases "t = k")
    case True
    then show ?thesis by simp
  next
    case False
    with Cons.prems have "t \<in> set ks" by simp
    from Cons.IH[OF this, of "Suc a"] obtain n where n: "map_of (slots (Suc a) ks) t = Some n"
      by blast
    from slots_later[OF n] have "a < n" by simp
    with n False show ?thesis by simp
  qed
qed

lemma add_traces_from:
  "ks \<noteq> [] \<Longrightarrow>
   map secondary_y (add_traces units manual new (slots 1 ks) groups) =
     map (\<lambda>v. unit_of units v \<noteq> hd ks) groups"
proof (induction groups arbitrary: ks)
  case Nil
  then show ?case by simp
next
  case (Cons g groups)
  let ?t = "unit_of units g"
  show ?case
  proof (cases "?t \<in> set ks")
    case True
    from slots_present[OF True, of 1] obtain n where
      n: "map_of (slots 1 ks) ?t = Some n" and s: "1 < n \<longleftrightarrow> ?t \<noteq> hd ks" by blast
    show ?thesis using n s Cons.IH[OF Cons.prems] by (simp add: Let_def)
  next
    case False
    have a: "map_of (slots 1 ks) ?t = None" by (rule slots_absent[OF False])
    have b: "slots (Suc 0) ks @ [(?t, Suc (length (slots (Suc 0) ks)))] = slots (Suc 0) (ks @ [?t])"
      using slots_snoc[of "Suc 0" ks ?t] by (simp add: slots_length)
    have f: "\<not> 1 < length (slots 1 ks) + 1 \<longleftrightarrow> False"
      using Cons.prems by (cases ks) (simp_all add: slots_length)
    have c: "?t \<noteq> hd ks" using False Cons.prems by (cases ks) auto
    have d: "hd (ks @ [?t]) = hd ks" using Cons.prems by simp
    have e: "ks @ [?t] \<noteq> []" by simp
    have "add_traces units manual new (slots 1 ks) (g # groups) =
            \<lparr>trace_variable = g, yaxis_title = ?t,
             kind = (if g \<in> set manual then Manual_scatter
                     else if g \<in> set new then Offline_bar else Process_line),
             secondary_y = (length (slots 1 ks) + 1 > 1)\<rparr>
            # add_traces units manual new (slots 1 (ks @ [?t])) groups"
      using a b by (simp add: Let_def)
    then show ?thesis
      using c f Cons.IH[OF e] unfolding d by simp
  qed
qed

lemma add_traces_axes:
  "map secondary_y (add_traces units manual new [] groups) =
     map (\<lambda>v. unit_of units v \<noteq> unit_of units (hd groups)) groups"
proof (cases groups)
  case Nil
  then show ?thesis by simp
next
  case (Cons g gs)
  have "[(unit_of units g, Suc 0)] = slots 1 [unit_of units g]" by simp
  then show ?thesis
    using add_traces_from[of "[unit_of units g]" units manual new gs] Cons
    by (simp add: Let_def)
qed

text \<open>
  C7. Whatever series are plotted, the trace of a variable goes to the primary axis when
  its unit is the unit of the first group, and to the one secondary axis otherwise: the
  first unit seen has the primary axis, every other unit shares the secondary axis.
\<close>

theorem plot_traces_two_axes:
  "map secondary_y (plot_traces variable_unit_map manual_variables new_variables all_data) =
     map (\<lambda>v. unit_of variable_unit_map v \<noteq>
               unit_of variable_unit_map (hd (sort (remdups (map Variable all_data)))))
         (sort (remdups (map Variable all_data))) \<and>
   map yaxis_title (plot_traces variable_unit_map manual_variables new_variables all_data) =
     map (unit_of variable_unit_map) (sort (remdups (map Variable all_data)))"
proof -
  have "map yaxis_title (add_traces u m n used groups) = map (unit_of u) groups"
    for u m n used groups
    by (induction groups arbitrary: used) (simp_all add: Let_def)
  then show ?thesis
    by (simp add: plot_traces_def add_traces_axes)
qed

section \<open>Properties of the batch merger\<close>

lemma update_absent: "k \<notin> fst ` set al \<Longrightarrow> AList.update k v al = al @ [(k, v)]"
  by (induction al) auto

lemma update_present:
  "distinct (map fst al) \<Longrightarrow> map_of al k = Some a0 \<Longrightarrow>
   AList.update k (f a0) al = map (\<lambda>(k', a). (k', if k' = k then f a else a)) al"
proof (induction al)
  case Nil
  then show ?case by simp
next
  case (Cons p al)
  obtain k' a where p: "p = (k', a)" by (cases p)
  show ?case
  proof (cases "k' = k")
    case True
    with Cons.prems p have "k \<notin> fst ` set al" and "a0 = a" by auto
    then have "map (\<lambda>(k', a). (k', if k' = k then f a else a)) al = al"
      by (intro map_idI) force
    with True p \<open>a0 = a\<close> show ?thesis by simp
  next
    case False
    with Cons p show ?thesis by simp
  qed
qed

lemma variable_rows_eq:
  "getitem df ''VarName'' = Inr col \<Longrightarrow>
   variable_rows df v = select_rows df (map (\<lambda>c. c = Str v) col)"
  by (simp add: variable_rows_def)

lemma extract_variables_eq:
  assumes "getitem df ''VarName'' = Inr col"
  shows "distinct names \<Longrightarrow> set names \<inter> fst ` set acc = {} \<Longrightarrow>
         extract_variables df names acc =
           Inr (acc @ map (\<lambda>v. (v, variable_rows df v))
                          (filter (\<lambda>v. \<not> df_empty (variable_rows df v)) names))"
proof (induction names arbitrary: acc)
  case Nil
  then show ?case by simp
next
  case (Cons v names)
  have v: "v \<notin> fst ` set acc" using Cons.prems by auto
  show ?case
  proof (cases "df_empty (variable_rows df v)")
    case True
    then show ?thesis
      using Cons assms by (simp add: variable_rows_eq[OF assms, symmetric])
  next
    case False
    have d: "set names \<inter> fst ` set (acc @ [(v, variable_rows df v)]) = {}"
      using Cons.prems by auto
    show ?thesis
      using False Cons.prems Cons.IH[OF _ d] assms
      by (simp add: variable_rows_eq[OF assms, symmetric] update_absent[OF v])
  qed
qed

lemma extract_variables_error:
  "getitem df ''VarName'' = Inl e \<Longrightarrow> names \<noteq> [] \<Longrightarrow> extract_variables df names acc = Inl e"
  by (cases names) simp_all

lemma merge_dataframes_eq:
  "distinct (map fst dfs) \<Longrightarrow> fst ` set dfs \<subseteq> fst ` set merged \<Longrightarrow>
   distinct (map fst merged) \<Longrightarrow> (\<forall>(v, d) \<in> set dfs. \<not> df_empty d) \<Longrightarrow>
   merge_dataframes dfs merged =
     (None, map (\<lambda>(k, a). (k, case map_of dfs k of None \<Rightarrow> a | Some d \<Rightarrow> concat_frames a d)) merged)"
proof (induction dfs arbitrary: merged)
  case Nil
  then show ?case by simp
next
  case (Cons p dfs)
  obtain v d where p: "p = (v, d)" by (cases p)
  from Cons.prems p have ne: "\<not> df_empty d" and vin: "v \<in> fst ` set merged"
    and vnot: "v \<notin> fst ` set dfs" by auto
  from vin obtain a0 where a0: "map_of merged v = Some a0"
    by (metis domD dom_map_of_conv_image_fst)
  let ?m1 = "map (\<lambda>(k', a). (k', if k' = v then concat_frames a d else a)) merged"
  have u: "AList.update v (concat_frames a0 d) merged = ?m1"
    using update_present[OF Cons.prems(3) a0, of "\<lambda>a. concat_frames a d"] .
  have keys: "map fst ?m1 = map fst merged" by (induction merged) auto
  have ih: "merge_dataframes dfs ?m1 =
     (None, map (\<lambda>(k, a). (k, case map_of dfs k of None \<Rightarrow> a | Some d \<Rightarrow> concat_frames a d)) ?m1)"
  proof (rule Cons.IH)
    show "distinct (map fst dfs)" using Cons.prems(1) by simp
    show "fst ` set dfs \<subseteq> fst ` set ?m1"
      using Cons.prems(2) keys by (metis (no_types, lifting) list.set_map set_subset_Cons image_mono subset_trans)
    show "distinct (map fst ?m1)" unfolding keys by (rule Cons.prems(3))
    show "\<forall>(v, d) \<in> set dfs. \<not> df_empty d" using Cons.prems(4) by simp
  qed
  have none: "map_of dfs v = None" using vnot by (simp add: map_of_eq_None_iff)
  have "map (\<lambda>(k, a). (k, case map_of dfs k of None \<Rightarrow> a | Some d \<Rightarrow> concat_frames a d)) ?m1 =
        map (\<lambda>(k, a). (k, case map_of (p # dfs) k of None \<Rightarrow> a | Some d \<Rightarrow> concat_frames a d)) merged"
    using none p by (auto simp: )
  with ih show ?case using ne a0 u p by simp
qed


lemma variable_names_distinct: "distinct variable_names"
  by (simp add: variable_names_def)

lemma variable_names_nonempty: "variable_names \<noteq> []"
  by (simp add: variable_names_def)

lemma sanitized_names_distinct: "distinct (map sanitize_filename variable_names)"
  by code_simp

lemma output_files_distinct: "distinct (map (output_file prefix) variable_names)"
proof -
  have "inj_on sanitize_filename (set variable_names)"
    using sanitized_names_distinct variable_names_distinct by (simp add: distinct_map)
  then have "inj_on (output_file prefix) (set variable_names)"
    by (auto simp: inj_on_def output_file_def)
  with variable_names_distinct show ?thesis by (simp add: distinct_map)
qed

lemma map_of_map_filter:
  "map_of (map (\<lambda>v. (v, g v)) (filter P names)) k = (if k \<in> set names \<and> P k then Some (g k) else None)"
  by (induction names) auto

lemma process_csv_file_ok:
  assumes "process_csv_file bucket file variable_names = Inr dfs"
  shows "\<exists>df. map_of bucket file = Some df \<and>
              dfs = map (\<lambda>v. (v, variable_rows df v))
                        (filter (\<lambda>v. \<not> df_empty (variable_rows df v)) variable_names)"
proof -
  from assms obtain df where df: "map_of bucket file = Some df"
    and ex: "extract_variables df variable_names [] = Inr dfs"
    by (auto simp: process_csv_file_def split: option.splits)
  show ?thesis
  proof (cases "getitem df ''VarName''")
    case (Inl e)
    from extract_variables_error[OF Inl variable_names_nonempty, of "[]"] ex show ?thesis by simp
  next
    case (Inr col)
    from extract_variables_eq[OF Inr variable_names_distinct, of "[]"] ex df show ?thesis by simp
  qed
qed

lemma merge_step:
  assumes "process_csv_file bucket file variable_names = Inr dfs"
  shows "merge_dataframes dfs (map (\<lambda>v. (v, A v)) variable_names) =
           (None, map (\<lambda>v. (v, append_rows bucket v (A v) file)) variable_names)"
proof -
  from process_csv_file_ok[OF assms] obtain df where df: "map_of bucket file = Some df"
    and dfs: "dfs = map (\<lambda>v. (v, variable_rows df v))
                        (filter (\<lambda>v. \<not> df_empty (variable_rows df v)) variable_names)"
    by blast
  let ?m = "map (\<lambda>v. (v, A v)) variable_names"
  have k: "map fst ?m = variable_names" by (simp add: comp_def)
  have 1: "distinct (map fst dfs)"
    unfolding dfs using variable_names_distinct by (simp add: comp_def distinct_map_filter)
  have 2: "fst ` set dfs \<subseteq> fst ` set ?m" unfolding dfs by force
  have 3: "distinct (map fst ?m)" unfolding k by (rule variable_names_distinct)
  have 4: "\<forall>(v, d) \<in> set dfs. \<not> df_empty d" unfolding dfs by auto
  have "map (\<lambda>(k, a). (k, case map_of dfs k of None \<Rightarrow> a | Some d \<Rightarrow> concat_frames a d)) ?m =
        map (\<lambda>v. (v, append_rows bucket v (A v) file)) variable_names"
    unfolding dfs by (simp add: map_of_map_filter append_rows_def df)
  with merge_dataframes_eq[OF 1 2 3 4] show ?thesis by simp
qed

lemma merge_files_eq:
  "merge_files bucket files (map (\<lambda>v. (v, A v)) variable_names) = (None, merged) \<Longrightarrow>
   merged = map (\<lambda>v. (v, foldl (append_rows bucket v) (A v) files)) variable_names"
proof (induction files arbitrary: A)
  case Nil
  then show ?case by simp
next
  case (Cons f files)
  from Cons.prems obtain dfs where p: "process_csv_file bucket f variable_names = Inr dfs"
    by (auto split: sum.splits)
  from Cons.prems p merge_step[OF p, of A]
  have "merge_files bucket files (map (\<lambda>v. (v, append_rows bucket v (A v) f)) variable_names)
          = (None, merged)" by simp
  from Cons.IH[OF this] show ?case by simp
qed

lemma concat_frames_nonempty:
  "\<not> df_empty b \<Longrightarrow> \<not> df_empty (concat_frames a b)"
  by (cases "columns a") (auto simp: df_empty_def concat_frames_def Let_def)

lemma concat_frames_grows:
  "\<not> df_empty a \<Longrightarrow> \<not> df_empty (concat_frames a b)"
  by (auto simp: df_empty_def concat_frames_def Let_def)

lemma foldl_append_rows_empty:
  "df_empty (foldl (append_rows bucket v) acc files) \<longleftrightarrow>
     df_empty acc \<and> (\<forall>file \<in> set files. \<forall>df. map_of bucket file = Some df \<longrightarrow> df_empty (variable_rows df v))"
proof (induction files arbitrary: acc)
  case Nil
  then show ?case by simp
next
  case (Cons f files)
  have "df_empty (append_rows bucket v acc f) \<longleftrightarrow>
          df_empty acc \<and> (\<forall>df. map_of bucket f = Some df \<longrightarrow> df_empty (variable_rows df v))"
    using concat_frames_nonempty[of _ acc] concat_frames_grows[of acc]
    by (auto simp: append_rows_def split: option.splits)
  with Cons.IH[of "append_rows bucket v acc f"] show ?case by auto
qed

lemma merged_rows_empty:
  "df_empty (merged_rows bucket files v) \<longleftrightarrow>
     (\<forall>file \<in> set files. \<forall>df. map_of bucket file = Some df \<longrightarrow> df_empty (variable_rows df v))"
  by (simp add: merged_rows_def foldl_append_rows_empty) (simp add: df_empty_def empty_frame_def)

lemma save_files_Cons:
  "save_files prefix ((v, df) # rest) bucket =
     (if \<not> df_empty df
      then (fst (save_files prefix rest (bucket(output_file prefix v \<mapsto> df))),
            output_file prefix v # snd (save_files prefix rest (bucket(output_file prefix v \<mapsto> df))))
      else save_files prefix rest bucket)"
  by (simp split: prod.splits)

lemma save_files_saved:
  "snd (save_files prefix merged bucket) =
     map (\<lambda>(v, df). output_file prefix v) (filter (\<lambda>(v, df). \<not> df_empty df) merged)"
  by (induction merged arbitrary: bucket) (auto simp: save_files_Cons simp del: save_files.simps(2))

lemma save_files_other:
  "name \<notin> set (snd (save_files prefix merged bucket)) \<Longrightarrow>
   fst (save_files prefix merged bucket) name = bucket name"
  by (induction merged arbitrary: bucket) (auto simp: save_files_Cons simp del: save_files.simps(2))

lemma save_files_written:
  "distinct (map (\<lambda>(v, df). output_file prefix v) merged) \<Longrightarrow> (v, df) \<in> set merged \<Longrightarrow>
   fst (save_files prefix merged bucket) (output_file prefix v) =
     (if df_empty df then bucket (output_file prefix v) else Some df)"
proof (induction merged arbitrary: bucket)
  case Nil
  then show ?case by simp
next
  case (Cons p merged)
  obtain v' df' where p: "p = (v', df')" by (cases p)
  let ?b = "if df_empty df' then bucket else bucket(output_file prefix v' \<mapsto> df')"
  have step: "fst (save_files prefix (p # merged) bucket) = fst (save_files prefix merged ?b)"
    using p by (simp add: save_files_Cons del: save_files.simps(2))
  show ?case
  proof (cases "(v, df) \<in> set merged")
    case True
    with Cons.prems p have ne: "output_file prefix v \<noteq> output_file prefix v'" by force
    from Cons.prems have "distinct (map (\<lambda>(v, df). output_file prefix v) merged)" by simp
    from Cons.IH[OF this True, of ?b] ne show ?thesis unfolding step by simp
  next
    case False
    with Cons.prems p have eq: "v' = v" "df' = df" by auto
    have "output_file prefix v \<notin> set (snd (save_files prefix merged ?b))"
      using Cons.prems p eq unfolding save_files_saved by force
    from save_files_other[OF this] eq show ?thesis unfolding step by simp
  qed
qed


lemma update_file_list_processed:
  assumes "update_file_list n_clicks start_date end_date filename_prefix st =
             (Inr (Processed selected saved), st')"
  shows "\<exists>prefix merged.
           filename_prefix = Some prefix \<and>
           merge_files (primary_bucket st) selected
             (map (\<lambda>var. (var, empty_frame)) variable_names) = (None, merged) \<and>
           save_files prefix merged (output_bucket st) = (output_bucket st', saved) \<and>
           merged_dataframes st' = merged"
  using assms
  by (auto simp: update_file_list_def Let_def
           split: option.splits if_splits date_arg.splits prod.splits)

lemma update_file_list_reinit:
  assumes "update_file_list n_clicks start_date end_date filename_prefix st =
             (Inr (Processed selected saved), st')"
  shows "update_file_list n_clicks start_date end_date filename_prefix
           (st\<lparr>merged_dataframes := previous\<rparr>) = (Inr (Processed selected saved), st')"
  using assms
  by (auto simp: update_file_list_def Let_def
           split: option.splits if_splits date_arg.splits prod.splits)

lemma update_file_list_no_write:
  assumes "update_file_list n_clicks start_date end_date filename_prefix st = (r, st')"
    and "\<forall>selected saved. r \<noteq> Inr (Processed selected saved)"
  shows "output_bucket st' = output_bucket st"
  using assms
  by (auto simp: update_file_list_def Let_def
           split: option.splits if_splits date_arg.splits prod.splits)

text \<open>
  C4. A run that processes files does not depend on the accumulators left by an earlier
  run; afterwards the accumulator of each configured variable holds the rows of that
  variable from the selected files, starting from empty; the saved files are exactly
  those of the variables whose accumulator is not empty, each written with its
  accumulator in place of whatever the blob held; an accumulator is empty exactly when
  no selected file has a row of the variable, and then the blob of that variable is as
  it was; and every blob that is not among the saved files is as it was. A run that ends
  in any other way writes nothing.
\<close>

theorem update_file_list_frame:
  "(case update_file_list n_clicks start_date end_date filename_prefix st of
      (Inr (Processed selected_files saved_files), st') \<Rightarrow>
        (\<exists>prefix. filename_prefix = Some prefix \<and>
           update_file_list n_clicks start_date end_date filename_prefix
             (st\<lparr>merged_dataframes := previous\<rparr>) =
             (Inr (Processed selected_files saved_files), st') \<and>
           merged_dataframes st' =
             map (\<lambda>v. (v, merged_rows (primary_bucket st) selected_files v)) variable_names \<and>
           saved_files =
             map (output_file prefix)
               (filter (\<lambda>v. \<not> df_empty (merged_rows (primary_bucket st) selected_files v))
                  variable_names) \<and>
           (\<forall>v \<in> set variable_names.
              (df_empty (merged_rows (primary_bucket st) selected_files v) \<longleftrightarrow>
                 (\<forall>f \<in> set selected_files. \<forall>df. map_of (primary_bucket st) f = Some df \<longrightarrow>
                     df_empty (variable_rows df v))) \<and>
              output_bucket st' (output_file prefix v) =
                (if df_empty (merged_rows (primary_bucket st) selected_files v)
                 then output_bucket st (output_file prefix v)
                 else Some (merged_rows (primary_bucket st) selected_files v))) \<and>
           (\<forall>name. name \<notin> set saved_files \<longrightarrow> output_bucket st' name = output_bucket st name))
    | (_, st') \<Rightarrow> output_bucket st' = output_bucket st)"
proof (cases "update_file_list n_clicks start_date end_date filename_prefix st")
  case (Pair r st')
  show ?thesis
  proof (cases "\<exists>selected saved. r = Inr (Processed selected saved)")
    case False
    then have "\<forall>selected saved. r \<noteq> Inr (Processed selected saved)" by blast
    from update_file_list_no_write[OF Pair this] have "output_bucket st' = output_bucket st" .
    with Pair False show ?thesis
      by (auto split: sum.splits response.splits)
  next
    case True
    then obtain selected saved where r: "r = Inr (Processed selected saved)" by blast
    note run = Pair[unfolded r]
    from update_file_list_processed[OF run] obtain prefix merged where
      p: "filename_prefix = Some prefix"
      and m: "merge_files (primary_bucket st) selected
                (map (\<lambda>var. (var, empty_frame)) variable_names) = (None, merged)"
      and s: "save_files prefix merged (output_bucket st) = (output_bucket st', saved)"
      and md: "merged_dataframes st' = merged" by blast
    let ?acc = "merged_rows (primary_bucket st) selected"
    have merged: "merged = map (\<lambda>v. (v, ?acc v)) variable_names"
      using merge_files_eq[OF m] by (simp add: merged_rows_def)
    have saved: "saved = map (output_file prefix) (filter (\<lambda>v. \<not> df_empty (?acc v)) variable_names)"
      using save_files_saved[of prefix merged "output_bucket st"] s
      by (simp add: merged filter_map comp_def)
    have d: "distinct (map (\<lambda>(v, df). output_file prefix v) merged)"
      using output_files_distinct[of prefix] by (simp add: merged comp_def)
    have written: "output_bucket st' (output_file prefix v) =
            (if df_empty (?acc v) then output_bucket st (output_file prefix v) else Some (?acc v))"
      if "v \<in> set variable_names" for v
    proof -
      from that have "(v, ?acc v) \<in> set merged" by (auto simp: merged)
      from save_files_written[OF d this, of "output_bucket st"] s show ?thesis by simp
    qed
    have other: "output_bucket st' name = output_bucket st name" if "name \<notin> set saved" for name
      using save_files_other[of name prefix merged "output_bucket st"] s that by simp
    have "\<exists>prefix. filename_prefix = Some prefix \<and>
           update_file_list n_clicks start_date end_date filename_prefix
             (st\<lparr>merged_dataframes := previous\<rparr>) = (Inr (Processed selected saved), st') \<and>
           merged_dataframes st' = map (\<lambda>v. (v, ?acc v)) variable_names \<and>
           saved = map (output_file prefix) (filter (\<lambda>v. \<not> df_empty (?acc v)) variable_names) \<and>
           (\<forall>v \<in> set variable_names.
              (df_empty (?acc v) \<longleftrightarrow>
                 (\<forall>f \<in> set selected. \<forall>df. map_of (primary_bucket st) f = Some df \<longrightarrow>
                     df_empty (variable_rows df v))) \<and>
              output_bucket st' (output_file prefix v) =
                (if df_empty (?acc v) then output_bucket st (output_file prefix v)
                 else Some (?acc v))) \<and>
           (\<forall>name. name \<notin> set saved \<longrightarrow> output_bucket st' name = output_bucket st name)"
      using p update_file_list_reinit[OF run, of previous] md merged saved written other
            merged_rows_empty[of "primary_bucket st" selected]
      by (intro exI[of _ prefix]) (simp only: simp_thms, blast)
    then show ?thesis unfolding run by simp
  qed
qed


theorem update_file_list_frame_witness:
  "\<exists>st'. update_file_list (Some 1) (fst january) (snd january) (Some ''B1'') merge_example =
           (Inr (Processed [''a_b_20240115_c.csv'', ''a_b_20240116_c.csv'']
                           [''B1_30P001_HMI_STATUS.csv'', ''B1_AO Values_10R001.csv'']), st') \<and>
         output_bucket st' ''B1_AO Values_10R002.csv'' = None \<and>
         output_bucket st' ''B1_AO Values_10R001.csv'' =
           Some (merged_rows (primary_bucket merge_example)
                   [''a_b_20240115_c.csv'', ''a_b_20240116_c.csv''] ''AO Values_10R001'')"
proof -
  let ?run = "update_file_list (Some 1) (fst january) (snd january) (Some ''B1'') merge_example"
  let ?sel = "[''a_b_20240115_c.csv'', ''a_b_20240116_c.csv'']"
  let ?saved = "[''B1_30P001_HMI_STATUS.csv'', ''B1_AO Values_10R001.csv'']"
  have r: "fst ?run = Inr (Processed ?sel ?saved)" by code_simp
  then obtain st' where run: "?run = (Inr (Processed ?sel ?saved), st')"
    by (cases ?run) simp
  have v: "''AO Values_10R001'' \<in> set variable_names" by (simp add: variable_names_def)
  have n: "output_file ''B1'' ''AO Values_10R001'' = ''B1_AO Values_10R001.csv''" by code_simp
  have e: "\<not> df_empty (merged_rows (primary_bucket merge_example) ?sel ''AO Values_10R001'')"
    by code_simp
  have o: "''B1_AO Values_10R002.csv'' \<notin> set ?saved" by simp
  have b: "output_bucket merge_example ''B1_AO Values_10R002.csv'' = None"
    by (simp add: merge_example_def)
  note T = update_file_list_frame[where n_clicks = "Some 1" and start_date = "fst january"
      and end_date = "snd january" and filename_prefix = "Some ''B1''" and st = merge_example
      and previous = "[]", unfolded run prod.case sum.case response.case]
  from T obtain prefix where px: "Some ''B1'' = Some prefix"
    and W: "\<forall>v \<in> set variable_names.
              (df_empty (merged_rows (primary_bucket merge_example) ?sel v) \<longleftrightarrow>
                 (\<forall>f \<in> set ?sel. \<forall>df. map_of (primary_bucket merge_example) f = Some df \<longrightarrow>
                     df_empty (variable_rows df v))) \<and>
              output_bucket st' (output_file prefix v) =
                (if df_empty (merged_rows (primary_bucket merge_example) ?sel v)
                 then output_bucket merge_example (output_file prefix v)
                 else Some (merged_rows (primary_bucket merge_example) ?sel v))"
    and O: "\<forall>name. name \<notin> set ?saved \<longrightarrow> output_bucket st' name = output_bucket merge_example name"
    by blast
  from px have p: "prefix = ''B1''" by simp
  from bspec[OF W v]
  have "output_bucket st' (output_file prefix ''AO Values_10R001'') =
          (if df_empty (merged_rows (primary_bucket merge_example) ?sel ''AO Values_10R001'')
           then output_bucket merge_example (output_file prefix ''AO Values_10R001'')
           else Some (merged_rows (primary_bucket merge_example) ?sel ''AO Values_10R001''))"
    by (rule conjunct2)
  then have 1: "output_bucket st' (output_file ''B1'' ''AO Values_10R001'') =
      Some (merged_rows (primary_bucket merge_example) ?sel ''AO Values_10R001'')"
    unfolding p by (simp only: e if_False)
  from O o b have 2: "output_bucket st' ''B1_AO Values_10R002.csv'' = None" by simp
  from run 1 2 show ?thesis unfolding n by blast
qed

text \<open>
  C2, as the code has it. One file without the column \<open>VarName\<close> among the selected files
  makes \<open>update_file_list\<close> end with KeyError, and nothing is saved, not even for the
  file read before it; one value that is not a number makes \<open>update_graph\<close> end with
  ValueError, although the other selected variable alone is drawn.
\<close>

theorem one_bad_input_aborts:
  "fst (update_file_list (Some 1) (fst january) (snd january) (Some ''B1'') bad_file_example) =
     Inl KeyError \<and>
   output_bucket
     (snd (update_file_list (Some 1) (fst january) (snd january) (Some ''B1'') bad_file_example)) =
     output_bucket bad_file_example \<and>
   update_graph bad_value_example
     [''B1_AI Values_78TT001 - Analog input'', ''B1_AI Values_78TT002 - Analog input''] =
     Inl ValueError \<and>
   update_graph bad_value_example [''B1_AI Values_78TT001 - Analog input''] =
     Inr (Figure [\<lparr>trace_variable = ''AI Values_78TT001 - Analog input'',
                    yaxis_title = ''Temperature ('' @ [char_of (176 :: nat)] @ ''C)'',
                    kind = Process_line, secondary_y = False\<rparr>])"
proof -
  let ?run = "update_file_list (Some 1) (fst january) (snd january) (Some ''B1'') bad_file_example"
  have 1: "fst ?run = Inl KeyError" by code_simp
  have h: "\<forall>selected saved. fst ?run \<noteq> Inr (Processed selected saved)" using 1 by simp
  have c: "?run = (fst ?run, snd ?run)" by simp
  from update_file_list_no_write[OF c h]
  have 2: "output_bucket (snd ?run) = output_bucket bad_file_example" by simp
  have 3: "update_graph bad_value_example
     [''B1_AI Values_78TT001 - Analog input'', ''B1_AI Values_78TT002 - Analog input''] =
     Inl ValueError" by code_simp
  have 4: "update_graph bad_value_example [''B1_AI Values_78TT001 - Analog input''] =
     Inr (Figure [\<lparr>trace_variable = ''AI Values_78TT001 - Analog input'',
                    yaxis_title = ''Temperature ('' @ [char_of (176 :: nat)] @ ''C)'',
                    kind = Process_line, secondary_y = False\<rparr>])"
    by code_simp
  from 1 2 3 4 show ?thesis by blast
qed

end
